theory Spec2Isabelle
  imports Main "HOL-Library.AList"
begin

section \<open>FastMail MCP server: the batched JMAP request engine\<close>

text \<open>
  A shallow embedding of \<^verbatim>\<open>fastmail_mcp_server.py\<close>: the session state of
  \<^verbatim>\<open>FastMailMCPServer\<close>, the request function \<^verbatim>\<open>make_jmap_request\<close> and the tool
  functions that build a batch of method calls, send it and read the reply.
\<close>

subsection \<open>Values\<close>

text \<open>
  Tool arguments, request bodies and replies are JSON values, which Python holds as
  \<^verbatim>\<open>None\<close>, \<^verbatim>\<open>bool\<close>, numbers, \<^verbatim>\<open>str\<close>, \<^verbatim>\<open>list\<close> and \<^verbatim>\<open>dict\<close>. A dict keeps
  its keys in insertion order, so it is an association list (with distinct keys);
  \<^verbatim>\<open>d[k] = v\<close> is \<open>AList.update\<close>, which overwrites in place or appends. Numbers are
  the integers; no function below computes with a number.
\<close>

datatype json =
    JNull
  | JBool bool
  | JNum int
  | JStr string
  | JArr "json list"
  | JObj "(string \<times> json) list"

type_synonym dict = "(string \<times> json) list"

text \<open>
  The exceptions the code can raise. \<open>Exception msg\<close> is the source's own
  \<^verbatim>\<open>raise Exception(msg)\<close>; the others are raised by the Python runtime, by
  \<^verbatim>\<open>response.json()\<close> and by the HTTP client.
\<close>

datatype error =
    Exception string
  | KeyError json
  | IndexError
  | TypeError
  | AttributeError
  | JSONDecodeError
  | TransportError string

definition bind_e :: "error + 'a \<Rightarrow> ('a \<Rightarrow> error + 'b) \<Rightarrow> error + 'b" where
  "bind_e m f = (case m of Inl e \<Rightarrow> Inl e | Inr x \<Rightarrow> f x)"

subsection \<open>The Python operations the source uses\<close>

text \<open>Truth value of an object in a condition (\<^verbatim>\<open>if x:\<close>, \<^verbatim>\<open>not x\<close>).\<close>

fun truthy :: "json \<Rightarrow> bool" where
  "truthy JNull = False"
| "truthy (JBool b) = b"
| "truthy (JNum n) = (n \<noteq> 0)"
| "truthy (JStr s) = (s \<noteq> [])"
| "truthy (JArr xs) = (xs \<noteq> [])"
| "truthy (JObj kvs) = (kvs \<noteq> [])"

text \<open>\<^verbatim>\<open>args.get(k, default)\<close> and \<^verbatim>\<open>args.get(k)\<close> on the argument dict; \<^verbatim>\<open>k in args\<close>.\<close>

definition dict_get_default :: "dict \<Rightarrow> string \<Rightarrow> json \<Rightarrow> json" where
  "dict_get_default d k dflt = (case map_of d k of None \<Rightarrow> dflt | Some v \<Rightarrow> v)"

definition dict_get :: "dict \<Rightarrow> string \<Rightarrow> json" where
  "dict_get d k = dict_get_default d k JNull"

definition dict_has :: "dict \<Rightarrow> string \<Rightarrow> bool" where
  "dict_has d k = (map_of d k \<noteq> None)"

text \<open>\<^verbatim>\<open>args[k]\<close> on the argument dict.\<close>

definition dict_item :: "dict \<Rightarrow> string \<Rightarrow> error + json" where
  "dict_item d k = (case map_of d k of None \<Rightarrow> Inl (KeyError (JStr k)) | Some v \<Rightarrow> Inr v)"

text \<open>
  A \<^verbatim>\<open>str\<close> is held as its UTF-8 bytes. Python counts, indexes and iterates the
  characters (code points) of a string, so the bytes are cut into characters: the first
  byte of a character says how many bytes it has. The bytes are taken to be well-formed
  UTF-8; a lone surrogate, which UTF-8 cannot hold, has no counterpart here.
\<close>

definition utf8_width :: "char \<Rightarrow> nat" where
  "utf8_width c =
     (if (of_char c :: nat) < 0x80 then 1
      else if (of_char c :: nat) < 0xE0 then 2
      else if (of_char c :: nat) < 0xF0 then 3
      else 4)"

fun code_points :: "string \<Rightarrow> string list" where
  "code_points [] = []"
| "code_points (c # cs) =
     (c # take (utf8_width c - 1) cs) # code_points (drop (utf8_width c - 1) cs)"

text \<open>
  \<^verbatim>\<open>x[k]\<close> with a string key and \<^verbatim>\<open>x[i]\<close> with a literal index, on an arbitrary
  value of a reply: a dict has string keys only, a list or a string is indexed by
  position, anything else is not subscriptable.
\<close>

fun py_getitem :: "json \<Rightarrow> string \<Rightarrow> error + json" where
  "py_getitem (JObj kvs) k = dict_item kvs k"
| "py_getitem _ k = Inl TypeError"

fun py_index :: "json \<Rightarrow> nat \<Rightarrow> error + json" where
  "py_index (JArr xs) i = (if i < length xs then Inr (xs ! i) else Inl IndexError)"
| "py_index (JStr s) i =
     (if i < length (code_points s) then Inr (JStr (code_points s ! i)) else Inl IndexError)"
| "py_index (JObj kvs) i = Inl (KeyError (JNum (int i)))"
| "py_index _ i = Inl TypeError"

text \<open>\<^verbatim>\<open>x.get(k)\<close> on a value of a reply: only a dict has the method.\<close>

fun py_get :: "json \<Rightarrow> string \<Rightarrow> error + json" where
  "py_get (JObj kvs) k = Inr (dict_get kvs k)"
| "py_get _ k = Inl AttributeError"

text \<open>\<^verbatim>\<open>list(x.values())[0]\<close>.\<close>

fun first_value :: "json \<Rightarrow> error + json" where
  "first_value (JObj []) = Inl IndexError"
| "first_value (JObj ((k, v) # kvs)) = Inr v"
| "first_value _ = Inl AttributeError"

text \<open>
  The elements a \<^verbatim>\<open>for\<close> loop or a comprehension runs over: the items of a list, the
  characters of a string, the keys of a dict.
\<close>

fun py_iter :: "json \<Rightarrow> error + json list" where
  "py_iter (JArr xs) = Inr xs"
| "py_iter (JStr s) = Inr (map JStr (code_points s))"
| "py_iter (JObj kvs) = Inr (map (\<lambda>kv. JStr (fst kv)) kvs)"
| "py_iter _ = Inl TypeError"

subsection \<open>The environment\<close>

text \<open>
  What the program takes from outside its own code is a parameter of the model:
  \<^item> \<open>str_other\<close>: Python's \<^verbatim>\<open>str()\<close> of a value that is not a string, as an f-string
    applies it;
  \<^item> \<open>lower\<close>: \<^verbatim>\<open>str.lower\<close>;
  \<^item> \<open>transport\<close>: the HTTP client and the remote server. The reply may depend on the
    requests made before, and the client may raise instead of replying;
  \<^item> \<open>format_*\<close>: the loops that lay the extracted list out as text, one per tool.
\<close>

datatype http_request =
    HttpGet string "(string \<times> string) list"
  | HttpPost string "(string \<times> string) list" json

record http_response =
  status_code :: int
  body_text :: string
  body_json :: "json option"

record env =
  str_other :: "json \<Rightarrow> string"
  lower :: "string \<Rightarrow> string"
  transport :: "http_request list \<Rightarrow> http_request \<Rightarrow> error + http_response"
  format_mailboxes :: "dict \<Rightarrow> json \<Rightarrow> error + string"
  format_found :: "dict \<Rightarrow> json \<Rightarrow> error + string"
  format_emails :: "json \<Rightarrow> json \<Rightarrow> error + string"
  format_search :: "dict \<Rightarrow> json \<Rightarrow> error + string"
  format_body :: "json \<Rightarrow> json \<Rightarrow> error + string"

definition py_str :: "env \<Rightarrow> json \<Rightarrow> string" where
  "py_str env v = (case v of JStr s \<Rightarrow> s | _ \<Rightarrow> str_other env v)"

text \<open>\<^verbatim>\<open>response.json()\<close>.\<close>

definition response_json :: "http_response \<Rightarrow> error + json" where
  "response_json r = (case body_json r of None \<Rightarrow> Inl JSONDecodeError | Some j \<Rightarrow> Inr j)"

subsection \<open>Session state\<close>

text \<open>
  The three fields of \<^verbatim>\<open>FastMailMCPServer\<close>; \<^verbatim>\<open>None\<close> is \<open>JNull\<close>, as it is in a
  parsed reply.
\<close>

record server_state =
  api_token :: json
  account_id :: json
  session_data :: json

definition init_state :: server_state where
  "init_state = \<lparr>api_token = JNull, account_id = JNull, session_data = JNull\<rparr>"

definition FASTMAIL_API_URL :: string where
  "FASTMAIL_API_URL = ''https://api.fastmail.com/jmap/api/''"

definition FASTMAIL_SESSION_URL :: string where
  "FASTMAIL_SESSION_URL = ''https://api.fastmail.com/jmap/session''"

text \<open>
  The markers that open the result texts, as the bytes the source file holds between
  the quotes.
\<close>

definition cross_mark :: string where
  "cross_mark = [CHR 0xE2, CHR 0x80, CHR 0x9A, CHR 0xC3, CHR 0xB9, CHR 0xC3, CHR 0xA5]"

definition check_mark :: string where
  "check_mark = [CHR 0xE2, CHR 0x80, CHR 0x9A, CHR 0xC3, CHR 0xBA, CHR 0xC3, CHR 0x96]"

definition mailbox_mark :: string where
  "mailbox_mark = [CHR 0xEF, CHR 0xA3, CHR 0xBF, CHR 0xC3, CHR 0xBC, CHR 0xC3, CHR 0xAC,
                   CHR 0xE2, CHR 0x89, CHR 0xA0]"

definition search_mark :: string where
  "search_mark = [CHR 0xEF, CHR 0xA3, CHR 0xBF, CHR 0xC3, CHR 0xBC, CHR 0xC3, CHR 0xAE,
                  CHR 0xC3, CHR 0xA7]"

subsection \<open>Sequencing\<close>

text \<open>
  A function that may send requests takes the log of the requests handed to the
  transport so far and returns its result with the extended log. \<open>then_e\<close> continues
  with a computation that sends nothing, \<open>bind_io\<close> with one that may send.
\<close>

type_synonym 'a io = "(error + 'a) \<times> http_request list"

definition then_e :: "'a io \<Rightarrow> ('a \<Rightarrow> error + 'b) \<Rightarrow> 'b io" where
  "then_e m f = (bind_e (fst m) f, snd m)"

definition bind_io :: "'a io \<Rightarrow> ('a \<Rightarrow> http_request list \<Rightarrow> 'b io) \<Rightarrow> 'b io" where
  "bind_io m f = (case fst m of Inl e \<Rightarrow> (Inl e, snd m) | Inr x \<Rightarrow> f x (snd m))"

subsection \<open>\<^verbatim>\<open>make_jmap_request\<close>\<close>

definition NotConfigured :: error where
  "NotConfigured = Exception ''FastMail not configured. Use configure_fastmail first.''"

definition bearer :: "env \<Rightarrow> json \<Rightarrow> string" where
  "bearer env tok = ''Bearer '' @ py_str env tok"

definition request_data :: "json list \<Rightarrow> json" where
  "request_data method_calls =
     JObj [(''using'', JArr [JStr ''urn:ietf:params:jmap:core'', JStr ''urn:ietf:params:jmap:mail'']),
           (''methodCalls'', JArr method_calls)]"

definition jmap_post :: "env \<Rightarrow> server_state \<Rightarrow> json list \<Rightarrow> http_request" where
  "jmap_post env st method_calls =
     HttpPost FASTMAIL_API_URL
       [(''Authorization'', bearer env (api_token st)), (''Content-Type'', ''application/json'')]
       (request_data method_calls)"

definition make_jmap_request ::
  "env \<Rightarrow> server_state \<Rightarrow> json list \<Rightarrow> http_request list \<Rightarrow> json io" where
  "make_jmap_request env st method_calls log =
     (if \<not> truthy (api_token st) \<or> \<not> truthy (account_id st) then (Inl NotConfigured, log)
      else
        (case transport env log (jmap_post env st method_calls) of
           Inl e \<Rightarrow> (Inl e, log @ [jmap_post env st method_calls])
         | Inr response \<Rightarrow>
             (if status_code response \<noteq> 200
              then Inl (Exception (''JMAP API error: '' @ body_text response))
              else response_json response,
              log @ [jmap_post env st method_calls])))"

text \<open>\<^verbatim>\<open>result["methodResponses"][i][1]\<close> and \<^verbatim>\<open>result["methodResponses"][i][1]["list"]\<close>.\<close>

definition response_payload :: "json \<Rightarrow> nat \<Rightarrow> error + json" where
  "response_payload result i =
     bind_e (py_getitem result ''methodResponses'') (\<lambda>rs.
     bind_e (py_index rs i) (\<lambda>r. py_index r 1))"

definition response_list :: "json \<Rightarrow> nat \<Rightarrow> error + json" where
  "response_list result i = bind_e (response_payload result i) (\<lambda>p. py_getitem p ''list'')"

subsection \<open>\<^verbatim>\<open>configure_fastmail\<close>\<close>

definition session_get :: "env \<Rightarrow> json \<Rightarrow> http_request" where
  "session_get env tok = HttpGet FASTMAIL_SESSION_URL [(''Authorization'', bearer env tok)]"

definition primary_account :: "json \<Rightarrow> error + json" where
  "primary_account sd =
     bind_e (py_getitem sd ''primaryAccounts'') (\<lambda>p. py_getitem p ''urn:ietf:params:jmap:mail'')"

fun py_get_default :: "json \<Rightarrow> string \<Rightarrow> json \<Rightarrow> error + json" where
  "py_get_default (JObj kvs) k dflt = Inr (dict_get_default kvs k dflt)"
| "py_get_default _ k dflt = Inl AttributeError"

definition configured_text :: "env \<Rightarrow> server_state \<Rightarrow> error + string" where
  "configured_text env st =
     bind_e (py_get_default (session_data st) ''username'' (JStr ''N/A'')) (\<lambda>u.
       Inr (check_mark @ '' FastMail configured successfully!'' @ [CHR 0x0A]
            @ ''Account ID: '' @ py_str env (account_id st) @ [CHR 0x0A]
            @ ''Username: '' @ py_str env u))"

text \<open>
  The fields are assigned one at a time, in the order of the source; an exception
  leaves the state as the assignments before it made it.
\<close>

definition configure_fastmail ::
  "env \<Rightarrow> server_state \<Rightarrow> dict \<Rightarrow> http_request list
     \<Rightarrow> (error + string) \<times> server_state \<times> http_request list" where
  "configure_fastmail env st args log =
     (case dict_item args ''apiToken'' of
        Inl e \<Rightarrow> (Inl e, st, log)
      | Inr tok \<Rightarrow>
          (let st1 = st\<lparr>api_token := tok\<rparr>; log1 = log @ [session_get env tok] in
           case transport env log (session_get env tok) of
             Inl e \<Rightarrow> (Inl e, st1, log1)
           | Inr response \<Rightarrow>
               if status_code response \<noteq> 200
               then (Inl (Exception (''Failed to authenticate: '' @ body_text response)), st1, log1)
               else
                 (case response_json response of
                    Inl e \<Rightarrow> (Inl e, st1, log1)
                  | Inr sd \<Rightarrow>
                      (let st2 = st1\<lparr>session_data := sd\<rparr> in
                       if truthy (dict_get args ''accountId'')
                       then (let st3 = st2\<lparr>account_id := dict_get args ''accountId''\<rparr>
                             in (configured_text env st3, st3, log1))
                       else
                         (case primary_account sd of
                            Inl e \<Rightarrow> (Inl e, st2, log1)
                          | Inr a \<Rightarrow>
                              (let st3 = st2\<lparr>account_id := a\<rparr>
                               in (configured_text env st3, st3, log1)))))))"

subsection \<open>Mailbox tools\<close>

definition mailbox_get_calls :: "server_state \<Rightarrow> json list" where
  "mailbox_get_calls st =
     [JArr [JStr ''Mailbox/get'', JObj [(''accountId'', account_id st)], JStr ''a'']]"

definition list_mailboxes :: "env \<Rightarrow> server_state \<Rightarrow> dict \<Rightarrow> http_request list \<Rightarrow> string io" where
  "list_mailboxes env st args log =
     then_e (make_jmap_request env st (mailbox_get_calls st) log) (\<lambda>result.
       bind_e (response_list result 0) (format_mailboxes env args))"

definition find_mailbox :: "env \<Rightarrow> server_state \<Rightarrow> dict \<Rightarrow> http_request list \<Rightarrow> string io" where
  "find_mailbox env st args log =
     then_e (make_jmap_request env st (mailbox_get_calls st) log) (\<lambda>result.
       bind_e (response_list result 0) (format_found env args))"

text \<open>\<^verbatim>\<open>x.lower()\<close>: only a string has the method.\<close>

definition py_lower :: "env \<Rightarrow> json \<Rightarrow> error + string" where
  "py_lower env v = (case v of JStr s \<Rightarrow> Inr (lower env s) | _ \<Rightarrow> Inl AttributeError)"

text \<open>The loop of \<^verbatim>\<open>resolve_mailbox_id\<close> over the mailboxes of the reply.\<close>

fun find_by_name :: "env \<Rightarrow> json \<Rightarrow> json list \<Rightarrow> error + json" where
  "find_by_name env mailbox_name [] =
     Inl (Exception (''Mailbox '' @ [CHR 0x27] @ py_str env mailbox_name @ [CHR 0x27]
                     @ '' not found''))"
| "find_by_name env mailbox_name (mb # mbs) =
     bind_e (py_getitem mb ''name'') (\<lambda>n.
     bind_e (py_lower env n) (\<lambda>a.
     bind_e (py_lower env mailbox_name) (\<lambda>b.
       if a = b then py_getitem mb ''id'' else find_by_name env mailbox_name mbs)))"

definition resolve_mailbox_id ::
  "env \<Rightarrow> server_state \<Rightarrow> json \<Rightarrow> json \<Rightarrow> http_request list \<Rightarrow> json io" where
  "resolve_mailbox_id env st mailbox_id mailbox_name log =
     (if truthy mailbox_id then (Inr mailbox_id, log)
      else if \<not> truthy mailbox_name
      then (Inl (Exception ''Either mailboxId or mailboxName must be provided''), log)
      else
        then_e (make_jmap_request env st (mailbox_get_calls st) log) (\<lambda>result.
          bind_e (response_list result 0) (\<lambda>mailboxes.
          bind_e (py_iter mailboxes) (find_by_name env mailbox_name))))"

subsection \<open>\<^verbatim>\<open>get_emails\<close>\<close>

definition email_properties :: "json \<Rightarrow> json list" where
  "email_properties include_body =
     map JStr [''id'', ''subject'', ''from'', ''to'', ''receivedAt'', ''preview'',
               ''hasAttachment'', ''keywords'']
     @ (if truthy include_body then map JStr [''bodyValues'', ''textBody'', ''htmlBody'']
        else [])"

definition ids_back_reference :: json where
  "ids_back_reference =
     JObj [(''resultOf'', JStr ''q''), (''name'', JStr ''Email/query''), (''path'', JStr ''/ids'')]"

definition received_at_descending :: json where
  "received_at_descending =
     JArr [JObj [(''property'', JStr ''receivedAt''), (''isAscending'', JBool False)]]"

definition get_emails_method_calls :: "server_state \<Rightarrow> json \<Rightarrow> dict \<Rightarrow> json list" where
  "get_emails_method_calls st mailbox_id args =
     [JArr [JStr ''Email/query'',
            JObj [(''accountId'', account_id st),
                  (''filter'', JObj [(''inMailbox'', mailbox_id)]),
                  (''sort'', received_at_descending),
                  (''limit'', dict_get_default args ''limit'' (JNum 20))],
            JStr ''q''],
      JArr [JStr ''Email/get'',
            JObj [(''accountId'', account_id st),
                  (''#ids'', ids_back_reference),
                  (''properties'',
                   JArr (email_properties (dict_get_default args ''includeBody'' (JBool False))))],
            JStr ''g'']]"

definition get_emails_result :: "env \<Rightarrow> dict \<Rightarrow> json \<Rightarrow> error + string" where
  "get_emails_result env args result =
     bind_e (response_list result 1) (\<lambda>emails.
       if \<not> truthy emails then Inr (mailbox_mark @ '' No emails found in this mailbox.'')
       else format_emails env (dict_get_default args ''includeBody'' (JBool False)) emails)"

definition get_emails :: "env \<Rightarrow> server_state \<Rightarrow> dict \<Rightarrow> http_request list \<Rightarrow> string io" where
  "get_emails env st args log =
     bind_io (resolve_mailbox_id env st (dict_get args ''mailboxId'') (dict_get args ''mailboxName'') log)
       (\<lambda>mailbox_id log1.
          then_e (make_jmap_request env st (get_emails_method_calls st mailbox_id args) log1)
            (get_emails_result env args))"

subsection \<open>\<^verbatim>\<open>search_emails\<close>\<close>

text \<open>
  The filter is built key by key. A string criterion is taken when its value is true in
  a condition (\<^verbatim>\<open>if keyword := args.get("keyword")\<close>); \<^verbatim>\<open>hasAttachment\<close> is taken
  when the key is in \<^verbatim>\<open>args\<close>, whatever its value.
\<close>

definition put_if :: "bool \<Rightarrow> string \<Rightarrow> json \<Rightarrow> dict \<Rightarrow> dict" where
  "put_if c k v d = (if c then AList.update k v d else d)"

definition email_filter :: "env \<Rightarrow> dict \<Rightarrow> dict" where
  "email_filter env args =
     (put_if (truthy (dict_get args ''after'')) ''after''
        (JStr (py_str env (dict_get args ''after'') @ ''T00:00:00Z''))
     (put_if (truthy (dict_get args ''before'')) ''before''
        (JStr (py_str env (dict_get args ''before'') @ ''T23:59:59Z''))
     (put_if (dict_has args ''hasAttachment'') ''hasAttachment'' (dict_get args ''hasAttachment'')
     (put_if (truthy (dict_get args ''subject'')) ''subject'' (dict_get args ''subject'')
     (put_if (truthy (dict_get args ''to_email'')) ''to'' (dict_get args ''to_email'')
     (put_if (truthy (dict_get args ''from_email'')) ''from'' (dict_get args ''from_email'')
     (put_if (truthy (dict_get args ''keyword'')) ''text'' (dict_get args ''keyword'')
     (put_if (truthy (dict_get args ''mailboxId'')) ''inMailbox'' (dict_get args ''mailboxId'')
        []))))))))"

definition EmptyCriteria :: string where
  "EmptyCriteria = cross_mark @ '' Please provide at least one search criterion.''"

definition search_emails_method_calls :: "env \<Rightarrow> server_state \<Rightarrow> dict \<Rightarrow> json list" where
  "search_emails_method_calls env st args =
     [JArr [JStr ''Email/query'',
            JObj [(''accountId'', account_id st),
                  (''filter'', JObj (email_filter env args)),
                  (''sort'', received_at_descending),
                  (''limit'', dict_get_default args ''limit'' (JNum 20))],
            JStr ''q''],
      JArr [JStr ''Email/get'',
            JObj [(''accountId'', account_id st),
                  (''#ids'', ids_back_reference),
                  (''properties'',
                   JArr (email_properties (dict_get_default args ''includeBody'' (JBool False))))],
            JStr ''g'']]"

definition search_emails_result :: "env \<Rightarrow> dict \<Rightarrow> json \<Rightarrow> error + string" where
  "search_emails_result env args result =
     bind_e (response_list result 1) (\<lambda>emails.
       if \<not> truthy emails
       then Inr (search_mark @ '' No emails found matching your search criteria.'')
       else format_search env args emails)"

definition search_emails :: "env \<Rightarrow> server_state \<Rightarrow> dict \<Rightarrow> http_request list \<Rightarrow> string io" where
  "search_emails env st args log =
     (if email_filter env args = [] then (Inr EmptyCriteria, log)
      else
        then_e (make_jmap_request env st (search_emails_method_calls env st args) log)
          (search_emails_result env args))"

subsection \<open>\<^verbatim>\<open>get_email_body\<close>\<close>

definition get_email_body_method_calls :: "server_state \<Rightarrow> json \<Rightarrow> json list" where
  "get_email_body_method_calls st email_id =
     [JArr [JStr ''Email/get'',
            JObj [(''accountId'', account_id st),
                  (''ids'', JArr [email_id]),
                  (''properties'',
                   JArr (map JStr [''id'', ''subject'', ''from'', ''to'', ''receivedAt'',
                                   ''bodyValues'', ''textBody'', ''htmlBody'']))],
            JStr ''g'']]"

definition get_email_body_result :: "env \<Rightarrow> dict \<Rightarrow> json \<Rightarrow> error + string" where
  "get_email_body_result env args result =
     bind_e (response_list result 0) (\<lambda>emails.
       if \<not> truthy emails then Inr (cross_mark @ '' Email not found.'')
       else format_body env (dict_get_default args ''format'' (JStr ''text'')) emails)"

definition get_email_body :: "env \<Rightarrow> server_state \<Rightarrow> dict \<Rightarrow> http_request list \<Rightarrow> string io" where
  "get_email_body env st args log =
     (case dict_item args ''emailId'' of
        Inl e \<Rightarrow> (Inl e, log)
      | Inr email_id \<Rightarrow>
          then_e (make_jmap_request env st (get_email_body_method_calls st email_id) log)
            (get_email_body_result env args))"

subsection \<open>\<^verbatim>\<open>send_email\<close>\<close>

text \<open>\<^verbatim>\<open>[{"email": addr} for addr in v]\<close>.\<close>

definition address :: "json \<Rightarrow> json" where
  "address addr = JObj [(''email'', addr)]"

definition addresses :: "json \<Rightarrow> error + json list" where
  "addresses v = bind_e (py_iter v) (\<lambda>xs. Inr (map address xs))"

definition email_data :: "json list \<Rightarrow> json list \<Rightarrow> json list \<Rightarrow> json \<Rightarrow> json \<Rightarrow> json \<Rightarrow> dict" where
  "email_data to_emails cc_emails bcc_emails subject body is_html =
     (put_if (bcc_emails \<noteq> []) ''bcc'' (JArr bcc_emails)
     (put_if (cc_emails \<noteq> []) ''cc'' (JArr cc_emails)
     ((if truthy is_html
       then AList.update ''htmlBody''
              (JArr [JObj [(''partId'', JStr ''body1''), (''type'', JStr ''text/html'')]])
       else AList.update ''textBody''
              (JArr [JObj [(''partId'', JStr ''body1''), (''type'', JStr ''text/plain'')]]))
        [(''to'', JArr to_emails),
         (''subject'', subject),
         (''bodyValues'',
          JObj [(''body1'',
                 JObj [(''value'', body),
                       (''type'', JStr (if truthy is_html then ''text/html'' else ''text/plain''))])])])))"

definition draft_back_reference :: json where
  "draft_back_reference =
     JObj [(''resultOf'', JStr ''e''), (''name'', JStr ''Email/set''),
           (''path'', JStr ''/created/draft/id'')]"

definition submission :: "json list \<Rightarrow> json" where
  "submission rcpt_to =
     JObj [(''#emailId'', draft_back_reference),
           (''envelope'', JObj [(''mailFrom'', JObj [(''email'', JStr [])]),
                                (''rcptTo'', JArr rcpt_to)])]"

definition send_email_calls ::
  "server_state \<Rightarrow> json list \<Rightarrow> json list \<Rightarrow> json list \<Rightarrow> json \<Rightarrow> json \<Rightarrow> json \<Rightarrow> json list" where
  "send_email_calls st to_emails cc_emails bcc_emails subject body is_html =
     [JArr [JStr ''Email/set'',
            JObj [(''accountId'', account_id st),
                  (''create'',
                   JObj [(''draft'',
                          JObj (email_data to_emails cc_emails bcc_emails subject body is_html))])],
            JStr ''e''],
      JArr [JStr ''EmailSubmission/set'',
            JObj [(''accountId'', account_id st),
                  (''create'',
                   JObj [(''submission'', submission (to_emails @ cc_emails @ bcc_emails))])],
            JStr ''s'']]"

text \<open>
  The arguments are read in the order of the source; a missing required key or a value
  that cannot be iterated raises before anything is built.
\<close>

definition send_email_method_calls :: "server_state \<Rightarrow> dict \<Rightarrow> error + json list" where
  "send_email_method_calls st args =
     bind_e (dict_item args ''to'') (\<lambda>to.
     bind_e (addresses to) (\<lambda>to_emails.
     bind_e (addresses (dict_get_default args ''cc'' (JArr []))) (\<lambda>cc_emails.
     bind_e (addresses (dict_get_default args ''bcc'' (JArr []))) (\<lambda>bcc_emails.
     bind_e (dict_item args ''subject'') (\<lambda>subject.
     bind_e (dict_item args ''body'') (\<lambda>body.
       Inr (send_email_calls st to_emails cc_emails bcc_emails subject body
              (dict_get_default args ''isHtml'' (JBool False)))))))))"

text \<open>
  \<^verbatim>\<open>error = list(r["notCreated"].values())[0]\<close> and the text made of
  \<^verbatim>\<open>error['description']\<close>.
\<close>

definition not_created_text :: "env \<Rightarrow> string \<Rightarrow> json \<Rightarrow> error + string" where
  "not_created_text env what not_created =
     bind_e (first_value not_created) (\<lambda>err.
     bind_e (py_getitem err ''description'') (\<lambda>d.
       Inr (cross_mark @ what @ py_str env d)))"

definition sent_text :: "env \<Rightarrow> json \<Rightarrow> error + string" where
  "sent_text env submission_result =
     bind_e (py_getitem submission_result ''created'') (\<lambda>created.
     bind_e (first_value created) (\<lambda>s.
     bind_e (py_getitem s ''id'') (\<lambda>submission_id.
       Inr (check_mark @ '' Email sent successfully! Submission ID: ''
            @ py_str env submission_id))))"

definition send_email_result :: "env \<Rightarrow> json \<Rightarrow> error + string" where
  "send_email_result env result =
     bind_e (response_payload result 0) (\<lambda>email_result.
     bind_e (py_get email_result ''notCreated'') (\<lambda>not_created.
       if truthy not_created
       then not_created_text env '' Failed to create email: '' not_created
       else
         bind_e (response_payload result 1) (\<lambda>submission_result.
         bind_e (py_get submission_result ''notCreated'') (\<lambda>not_sent.
           if truthy not_sent
           then not_created_text env '' Failed to send email: '' not_sent
           else sent_text env submission_result))))"

definition send_email :: "env \<Rightarrow> server_state \<Rightarrow> dict \<Rightarrow> http_request list \<Rightarrow> string io" where
  "send_email env st args log =
     (case send_email_method_calls st args of
        Inl e \<Rightarrow> (Inl e, log)
      | Inr method_calls \<Rightarrow>
          then_e (make_jmap_request env st method_calls log) (send_email_result env))"

subsection \<open>Reading a batch\<close>

text \<open>
  A method call is the triple \<^verbatim>\<open>[methodName, arguments, label]\<close>. The functions below
  read its parts and follow a path of keys into nested dicts; they are used to state
  what a built batch contains.
\<close>

definition call_name :: "json \<Rightarrow> error + json" where
  "call_name c = py_index c 0"

definition call_arguments :: "json \<Rightarrow> error + json" where
  "call_arguments c = py_index c 1"

definition call_label :: "json \<Rightarrow> error + json" where
  "call_label c = py_index c 2"

fun path_item :: "json \<Rightarrow> string list \<Rightarrow> error + json" where
  "path_item v [] = Inr v"
| "path_item v (k # ks) = bind_e (py_getitem v k) (\<lambda>x. path_item x ks)"

definition call_argument :: "json \<Rightarrow> string list \<Rightarrow> error + json" where
  "call_argument c path = bind_e (call_arguments c) (\<lambda>a. path_item a path)"

text \<open>The method calls inside a posted request, and the method names a log holds.\<close>

fun posted_calls :: "http_request \<Rightarrow> json list" where
  "posted_calls (HttpPost url headers body) =
     (case bind_e (py_getitem body ''methodCalls'') py_iter of Inl e \<Rightarrow> [] | Inr cs \<Rightarrow> cs)"
| "posted_calls (HttpGet url headers) = []"

definition issued_calls :: "http_request list \<Rightarrow> (error + json) list" where
  "issued_calls log = concat (map (\<lambda>request. map call_name (posted_calls request)) log)"

subsection \<open>Concrete environments and inputs\<close>

text \<open>
  An environment whose transport gives the same reply to every request, for the
  evaluations at concrete inputs below.
\<close>

definition reply_env :: "error + http_response \<Rightarrow> env" where
  "reply_env r =
     \<lparr>str_other = (\<lambda>v. ''<value>''),
      lower = (\<lambda>s. s),
      transport = (\<lambda>log request. r),
      format_mailboxes = (\<lambda>args v. Inr ''<mailboxes>''),
      format_found = (\<lambda>args v. Inr ''<found>''),
      format_emails = (\<lambda>include_body v. Inr ''<emails>''),
      format_search = (\<lambda>args v. Inr ''<results>''),
      format_body = (\<lambda>format_type v. Inr ''<body>'')\<rparr>"

definition ok_response :: "json \<Rightarrow> http_response" where
  "ok_response j = \<lparr>status_code = 200, body_text = [], body_json = Some j\<rparr>"

definition offline :: env where
  "offline = reply_env (Inl (TransportError ''unreachable''))"

definition configured_state :: server_state where
  "configured_state = \<lparr>api_token = JStr ''token-1'', account_id = JStr ''A1'', session_data = JNull\<rparr>"

text \<open>A reply to the two-step fetch, as a list of \<^verbatim>\<open>methodResponses\<close> entries.\<close>

definition reply_of :: "json list \<Rightarrow> json" where
  "reply_of entries = JObj [(''methodResponses'', JArr entries)]"

definition query_entry :: json where
  "query_entry = JArr [JStr ''Email/query'', JObj [(''ids'', JArr [JStr ''E1''])], JStr ''q'']"

definition get_entry :: json where
  "get_entry =
     JArr [JStr ''Email/get'',
           JObj [(''list'', JArr [JObj [(''id'', JStr ''E1''), (''subject'', JStr ''Hello'')]])],
           JStr ''g'']"

text \<open>
  A reply to the send batch in which the draft was not created; the submission, whose
  reference cannot be resolved, is answered by an error entry.
\<close>

definition not_created_reply :: json where
  "not_created_reply =
     reply_of
       [JArr [JStr ''Email/set'',
              JObj [(''created'', JObj []),
                    (''notCreated'',
                     JObj [(''draft'', JObj [(''type'', JStr ''invalidProperties''),
                                             (''description'', JStr ''missing subject'')])])],
              JStr ''e''],
        JArr [JStr ''error'', JObj [(''type'', JStr ''invalidResultReference'')], JStr ''s'']]"

definition send_args :: dict where
  "send_args = [(''to'', JArr [JStr ''a@example.org'']), (''subject'', JStr []),
                (''body'', JStr ''Hello'')]"

text \<open>A session configured earlier, and a server that rejects the new credential.\<close>

definition old_state :: server_state where
  "old_state = \<lparr>api_token = JStr ''old-token'', account_id = JStr ''A-old'',
                 session_data = JObj [(''username'', JStr ''old@example.org'')]\<rparr>"

definition rejecting :: env where
  "rejecting = reply_env (Inr \<lparr>status_code = 401, body_text = ''Unauthorized'', body_json = None\<rparr>)"

definition session_reply :: json where
  "session_reply =
     JObj [(''username'', JStr ''new@example.org''),
           (''primaryAccounts'', JObj [(''urn:ietf:params:jmap:mail'', JStr ''A-new'')])]"

section \<open>Properties\<close>

subsection \<open>Conditional insertion into a dict\<close>

lemma keys_put_if:
  "fst ` set (put_if c k v d) = (if c then insert k (fst ` set d) else fst ` set d)"
  by (simp add: put_if_def dom_update)

lemma map_of_put_if:
  "map_of (put_if c k v d) = (if c then (map_of d)(k \<mapsto> v) else map_of d)"
  by (simp add: put_if_def update_conv')

lemma put_if_Nil: "put_if c k v d = [] \<longleftrightarrow> \<not> c \<and> d = []"
  by (simp add: put_if_def)

lemma distinct_put_if: "distinct (map fst d) \<Longrightarrow> distinct (map fst (put_if c k v d))"
  by (simp add: put_if_def distinct_update)

lemma email_filter_Nil:
  "email_filter env args = [] \<longleftrightarrow>
     \<not> truthy (dict_get args ''mailboxId'') \<and> \<not> truthy (dict_get args ''keyword'')
     \<and> \<not> truthy (dict_get args ''from_email'') \<and> \<not> truthy (dict_get args ''to_email'')
     \<and> \<not> truthy (dict_get args ''subject'') \<and> \<not> dict_has args ''hasAttachment''
     \<and> \<not> truthy (dict_get args ''before'') \<and> \<not> truthy (dict_get args ''after'')"
  unfolding email_filter_def put_if_Nil by auto

subsection \<open>The search filter\<close>

text \<open>
  C4 (as amended). The filter holds each key once, and its keys are exactly these: the
  key of each string criterion (\<^verbatim>\<open>mailboxId\<close> to \<^verbatim>\<open>inMailbox\<close>, \<^verbatim>\<open>keyword\<close> to
  \<^verbatim>\<open>text\<close>, \<^verbatim>\<open>from_email\<close> to \<^verbatim>\<open>from\<close>, \<^verbatim>\<open>to_email\<close> to \<^verbatim>\<open>to\<close>, \<^verbatim>\<open>subject\<close>,
  \<^verbatim>\<open>before\<close>, \<^verbatim>\<open>after\<close>) whose value is true in a condition, that is, supplied and
  not empty; and \<^verbatim>\<open>hasAttachment\<close> when that key is among the arguments, whatever its
  value. A criterion that is absent gives no key, and so does one supplied as the empty
  string.
\<close>

theorem email_filter_keys:
  "distinct (map fst (email_filter env args)) \<and>
   fst ` set (email_filter env args) =
     {k. k = ''inMailbox'' \<and> truthy (dict_get args ''mailboxId'')
       \<or> k = ''text'' \<and> truthy (dict_get args ''keyword'')
       \<or> k = ''from'' \<and> truthy (dict_get args ''from_email'')
       \<or> k = ''to'' \<and> truthy (dict_get args ''to_email'')
       \<or> k = ''subject'' \<and> truthy (dict_get args ''subject'')
       \<or> k = ''hasAttachment'' \<and> dict_has args ''hasAttachment''
       \<or> k = ''before'' \<and> truthy (dict_get args ''before'')
       \<or> k = ''after'' \<and> truthy (dict_get args ''after'')}"
proof
  show "distinct (map fst (email_filter env args))"
    unfolding email_filter_def by (intro distinct_put_if) simp
next
  show "fst ` set (email_filter env args) =
     {k. k = ''inMailbox'' \<and> truthy (dict_get args ''mailboxId'')
       \<or> k = ''text'' \<and> truthy (dict_get args ''keyword'')
       \<or> k = ''from'' \<and> truthy (dict_get args ''from_email'')
       \<or> k = ''to'' \<and> truthy (dict_get args ''to_email'')
       \<or> k = ''subject'' \<and> truthy (dict_get args ''subject'')
       \<or> k = ''hasAttachment'' \<and> dict_has args ''hasAttachment''
       \<or> k = ''before'' \<and> truthy (dict_get args ''before'')
       \<or> k = ''after'' \<and> truthy (dict_get args ''after'')}"
    unfolding email_filter_def keys_put_if by auto
qed

theorem email_filter_keys_witness:
  "fst ` set (email_filter offline
      [(''keyword'', JStr ''invoice''), (''from_email'', JStr []),
       (''hasAttachment'', JBool False), (''limit'', JNum 5)])
   = {''text'', ''hasAttachment''}"
  using email_filter_keys [of offline
      "[(''keyword'', JStr ''invoice''), (''from_email'', JStr []),
        (''hasAttachment'', JBool False), (''limit'', JNum 5)]"]
  by (auto simp: dict_get_def dict_get_default_def dict_has_def)

text \<open>
  The claim as stated fails where a criterion is supplied as the empty string: the
  keyword is among the arguments and the filter has no \<^verbatim>\<open>text\<close> key.
\<close>

theorem email_filter_keys_counterexample:
  "dict_has [(''keyword'', JStr []), (''subject'', JStr ''hello'')] ''keyword'' \<and>
   ''text'' \<notin> fst ` set (email_filter offline
      [(''keyword'', JStr []), (''subject'', JStr ''hello'')])"
  by (simp add: email_filter_def put_if_def dict_get_def dict_get_default_def dict_has_def)

text \<open>
  C5. When no search criterion is set (no string criterion with a value that is true in
  a condition, and no \<^verbatim>\<open>hasAttachment\<close> key), \<^verbatim>\<open>search_emails\<close> returns the text
  asking for at least one criterion and hands no request to the transport: the log is
  unchanged, so the empty filter is never sent. The session state plays no part.
\<close>

theorem search_emails_empty_criteria:
  assumes "\<forall>f \<in> set [''mailboxId'', ''keyword'', ''from_email'', ''to_email'', ''subject'',
                      ''before'', ''after'']. \<not> truthy (dict_get args f)"
    and "\<not> dict_has args ''hasAttachment''"
  shows "search_emails env st args log = (Inr EmptyCriteria, log)"
proof -
  from assms have "email_filter env args = []"
    unfolding email_filter_Nil by simp
  then show ?thesis by (simp add: search_emails_def)
qed

theorem search_emails_empty_criteria_witness:
  "search_emails offline init_state [(''limit'', JNum 5), (''includeBody'', JBool True)] []
   = (Inr EmptyCriteria, [])"
  using search_emails_empty_criteria
    [of "[(''limit'', JNum 5), (''includeBody'', JBool True)]" offline init_state "[]"]
  by (simp add: dict_get_def dict_get_default_def dict_has_def)

text \<open>
  C6 (as amended). A date bound supplied as a non-empty string \<open>d\<close> is compiled to
  \<open>d\<close> followed by \<^verbatim>\<open>T23:59:59Z\<close> under the key \<^verbatim>\<open>before\<close>, and to \<open>d\<close> followed by
  \<^verbatim>\<open>T00:00:00Z\<close> under the key \<^verbatim>\<open>after\<close>, with no check that \<open>d\<close> is a date.
\<close>

theorem email_filter_dates:
  assumes "d \<noteq> []"
  shows "(map_of args ''before'' = Some (JStr d) \<longrightarrow>
            map_of (email_filter env args) ''before'' = Some (JStr (d @ ''T23:59:59Z''))) \<and>
         (map_of args ''after'' = Some (JStr d) \<longrightarrow>
            map_of (email_filter env args) ''after'' = Some (JStr (d @ ''T00:00:00Z'')))"
  using assms unfolding email_filter_def map_of_put_if
  by (simp add: dict_get_def dict_get_default_def py_str_def)

theorem email_filter_dates_witness:
  "map_of (email_filter offline [(''before'', JStr ''2024-01-10'')]) ''before''
     = Some (JStr ''2024-01-10T23:59:59Z'') \<and>
   map_of (email_filter offline [(''after'', JStr ''2024-01-01'')]) ''after''
     = Some (JStr ''2024-01-01T00:00:00Z'') \<and>
   map_of (email_filter offline [(''before'', JStr ''soon'')]) ''before''
     = Some (JStr ''soonT23:59:59Z'')"
  using email_filter_dates [of "''2024-01-10''" "[(''before'', JStr ''2024-01-10'')]" offline]
    email_filter_dates [of "''2024-01-01''" "[(''after'', JStr ''2024-01-01'')]" offline]
    email_filter_dates [of "''soon''" "[(''before'', JStr ''soon'')]" offline]
  by simp

text \<open>
  The claim as stated fails at the empty string: it is an arbitrary string, the claim
  gives \<^verbatim>\<open>T23:59:59Z\<close> under \<^verbatim>\<open>before\<close>, and the filter has no \<^verbatim>\<open>before\<close> key.
\<close>

theorem email_filter_dates_counterexample:
  "map_of (email_filter offline [(''before'', JStr []), (''subject'', JStr ''hello'')]) ''before''
     \<noteq> Some (JStr ([] @ ''T23:59:59Z''))"
  by (simp add: email_filter_def put_if_def dict_get_def dict_get_default_def dict_has_def)

subsection \<open>Sending a batch\<close>

lemma make_jmap_request_not_configured:
  "\<not> truthy (api_token st) \<or> \<not> truthy (account_id st) \<Longrightarrow>
     make_jmap_request env st method_calls log = (Inl NotConfigured, log)"
  by (auto simp: make_jmap_request_def)

lemma make_jmap_request_log:
  "truthy (api_token st) \<Longrightarrow> truthy (account_id st) \<Longrightarrow>
     snd (make_jmap_request env st method_calls log) = log @ [jmap_post env st method_calls]"
  by (simp add: make_jmap_request_def split: sum.splits)

lemmas read_defs = call_name_def call_arguments_def call_label_def call_argument_def
  bind_e_def dict_item_def

subsection \<open>The two-step fetch\<close>

text \<open>
  C7. The batch that \<^verbatim>\<open>get_emails\<close> builds for a mailbox id, and the batch that
  \<^verbatim>\<open>search_emails\<close> builds, are two calls in this order: \<^verbatim>\<open>Email/query\<close> with label
  \<^verbatim>\<open>q\<close>, whose filter is \<^verbatim>\<open>{inMailbox: mailbox_id}\<close> (the compiled filter, for a
  search), then \<^verbatim>\<open>Email/get\<close> with label \<^verbatim>\<open>g\<close>, whose argument \<^verbatim>\<open>#ids\<close> is
  \<^verbatim>\<open>{resultOf: "q", name: "Email/query", path: "/ids"}\<close>. Once the session is
  configured, \<^verbatim>\<open>get_emails\<close> with a resolved mailbox id and \<^verbatim>\<open>search_emails\<close> with a
  non-empty filter post exactly that batch.
\<close>

theorem query_then_get_batch:
  "(map call_name (get_emails_method_calls st mailbox_id args)
      = [Inr (JStr ''Email/query''), Inr (JStr ''Email/get'')] \<and>
    map call_label (get_emails_method_calls st mailbox_id args)
      = [Inr (JStr ''q''), Inr (JStr ''g'')] \<and>
    call_argument (get_emails_method_calls st mailbox_id args ! 0) [''filter'']
      = Inr (JObj [(''inMailbox'', mailbox_id)]) \<and>
    call_argument (get_emails_method_calls st mailbox_id args ! 1) [''#ids'']
      = Inr (JObj [(''resultOf'', JStr ''q''), (''name'', JStr ''Email/query''),
                   (''path'', JStr ''/ids'')]))
   \<and>
   (map call_name (search_emails_method_calls env st args)
      = [Inr (JStr ''Email/query''), Inr (JStr ''Email/get'')] \<and>
    map call_label (search_emails_method_calls env st args)
      = [Inr (JStr ''q''), Inr (JStr ''g'')] \<and>
    call_argument (search_emails_method_calls env st args ! 0) [''filter'']
      = Inr (JObj (email_filter env args)) \<and>
    call_argument (search_emails_method_calls env st args ! 1) [''#ids'']
      = Inr (JObj [(''resultOf'', JStr ''q''), (''name'', JStr ''Email/query''),
                   (''path'', JStr ''/ids'')]))
   \<and>
   (truthy (api_token st) \<and> truthy (account_id st) \<and>
    resolve_mailbox_id env st (dict_get args ''mailboxId'') (dict_get args ''mailboxName'') log
      = (Inr mailbox_id, log1)
    \<longrightarrow> snd (get_emails env st args log)
          = log1 @ [jmap_post env st (get_emails_method_calls st mailbox_id args)])
   \<and>
   (truthy (api_token st) \<and> truthy (account_id st) \<and> email_filter env args \<noteq> []
    \<longrightarrow> snd (search_emails env st args log)
          = log @ [jmap_post env st (search_emails_method_calls env st args)])"
proof (intro conjI impI)
  show "map call_name (get_emails_method_calls st mailbox_id args)
      = [Inr (JStr ''Email/query''), Inr (JStr ''Email/get'')]"
    by (simp add: get_emails_method_calls_def read_defs)
  show "map call_label (get_emails_method_calls st mailbox_id args)
      = [Inr (JStr ''q''), Inr (JStr ''g'')]"
    by (simp add: get_emails_method_calls_def read_defs)
  show "call_argument (get_emails_method_calls st mailbox_id args ! 0) [''filter'']
      = Inr (JObj [(''inMailbox'', mailbox_id)])"
    by (simp add: get_emails_method_calls_def read_defs)
  show "call_argument (get_emails_method_calls st mailbox_id args ! 1) [''#ids'']
      = Inr (JObj [(''resultOf'', JStr ''q''), (''name'', JStr ''Email/query''),
                   (''path'', JStr ''/ids'')])"
    by (simp add: get_emails_method_calls_def read_defs ids_back_reference_def)
  show "map call_name (search_emails_method_calls env st args)
      = [Inr (JStr ''Email/query''), Inr (JStr ''Email/get'')]"
    by (simp add: search_emails_method_calls_def read_defs)
  show "map call_label (search_emails_method_calls env st args)
      = [Inr (JStr ''q''), Inr (JStr ''g'')]"
    by (simp add: search_emails_method_calls_def read_defs)
  show "call_argument (search_emails_method_calls env st args ! 0) [''filter'']
      = Inr (JObj (email_filter env args))"
    by (simp add: search_emails_method_calls_def read_defs)
  show "call_argument (search_emails_method_calls env st args ! 1) [''#ids'']
      = Inr (JObj [(''resultOf'', JStr ''q''), (''name'', JStr ''Email/query''),
                   (''path'', JStr ''/ids'')])"
    by (simp add: search_emails_method_calls_def read_defs ids_back_reference_def)
next
  assume "truthy (api_token st) \<and> truthy (account_id st) \<and>
    resolve_mailbox_id env st (dict_get args ''mailboxId'') (dict_get args ''mailboxName'') log
      = (Inr mailbox_id, log1)"
  then show "snd (get_emails env st args log)
          = log1 @ [jmap_post env st (get_emails_method_calls st mailbox_id args)]"
    by (simp add: get_emails_def bind_io_def then_e_def make_jmap_request_log)
next
  assume "truthy (api_token st) \<and> truthy (account_id st) \<and> email_filter env args \<noteq> []"
  then show "snd (search_emails env st args log)
          = log @ [jmap_post env st (search_emails_method_calls env st args)]"
    by (simp add: search_emails_def then_e_def make_jmap_request_log)
qed

theorem query_then_get_batch_witness:
  "snd (get_emails offline configured_state [(''mailboxId'', JStr ''M1'')] [])
     = [HttpPost ''https://api.fastmail.com/jmap/api/''
          [(''Authorization'', ''Bearer token-1''), (''Content-Type'', ''application/json'')]
          (JObj [(''using'', JArr [JStr ''urn:ietf:params:jmap:core'',
                                   JStr ''urn:ietf:params:jmap:mail'']),
                 (''methodCalls'',
                  JArr [JArr [JStr ''Email/query'',
                              JObj [(''accountId'', JStr ''A1''),
                                    (''filter'', JObj [(''inMailbox'', JStr ''M1'')]),
                                    (''sort'', JArr [JObj [(''property'', JStr ''receivedAt''),
                                                           (''isAscending'', JBool False)]]),
                                    (''limit'', JNum 20)],
                              JStr ''q''],
                        JArr [JStr ''Email/get'',
                              JObj [(''accountId'', JStr ''A1''),
                                    (''#ids'', JObj [(''resultOf'', JStr ''q''),
                                                     (''name'', JStr ''Email/query''),
                                                     (''path'', JStr ''/ids'')]),
                                    (''properties'',
                                     JArr [JStr ''id'', JStr ''subject'', JStr ''from'',
                                           JStr ''to'', JStr ''receivedAt'', JStr ''preview'',
                                           JStr ''hasAttachment'', JStr ''keywords''])],
                              JStr ''g'']])])]
   \<and> snd (search_emails offline configured_state [(''keyword'', JStr ''invoice'')] [])
     = [jmap_post offline configured_state
          (search_emails_method_calls offline configured_state [(''keyword'', JStr ''invoice'')])]"
proof -
  have r: "resolve_mailbox_id offline configured_state
             (dict_get [(''mailboxId'', JStr ''M1'')] ''mailboxId'')
             (dict_get [(''mailboxId'', JStr ''M1'')] ''mailboxName'') []
           = (Inr (JStr ''M1''), [])"
    by (simp add: resolve_mailbox_id_def dict_get_def dict_get_default_def)
  have c: "truthy (api_token configured_state) \<and> truthy (account_id configured_state)"
    by (simp add: configured_state_def)
  have f: "email_filter offline [(''keyword'', JStr ''invoice'')] \<noteq> []"
    by (simp add: email_filter_Nil dict_get_def dict_get_default_def)
  have g: "snd (get_emails offline configured_state [(''mailboxId'', JStr ''M1'')] [])
     = [jmap_post offline configured_state
          (get_emails_method_calls configured_state (JStr ''M1'') [(''mailboxId'', JStr ''M1'')])]"
    using query_then_get_batch [of configured_state "JStr ''M1''"
        "[(''mailboxId'', JStr ''M1'')]" offline "[]" "[]"] r c by simp
  have s: "snd (search_emails offline configured_state [(''keyword'', JStr ''invoice'')] [])
     = [jmap_post offline configured_state
          (search_emails_method_calls offline configured_state [(''keyword'', JStr ''invoice'')])]"
    using query_then_get_batch [of configured_state "JStr ''M1''"
        "[(''keyword'', JStr ''invoice'')]" offline "[]" "[]"] c f by simp
  show ?thesis
    unfolding g s
    by (simp add: jmap_post_def request_data_def get_emails_method_calls_def
        configured_state_def FASTMAIL_API_URL_def bearer_def py_str_def
        received_at_descending_def ids_back_reference_def email_properties_def
        dict_get_default_def)
qed

subsection \<open>The send batch\<close>

lemma send_email_method_calls_lists:
  assumes "dict_item args ''to'' = Inr (JArr ts)"
    and "dict_get_default args ''cc'' (JArr []) = JArr cs"
    and "dict_get_default args ''bcc'' (JArr []) = JArr bs"
    and "dict_item args ''subject'' = Inr subject"
    and "dict_item args ''body'' = Inr body"
  shows "send_email_method_calls st args =
           Inr (send_email_calls st (map address ts) (map address cs) (map address bs)
                  subject body (dict_get_default args ''isHtml'' (JBool False)))"
  using assms by (simp add: send_email_method_calls_def addresses_def bind_e_def)

lemma send_email_method_calls_shape:
  assumes "send_email_method_calls st args = Inr calls"
  shows "\<exists>t c b subject body h. calls = send_email_calls st t c b subject body h"
  using assms unfolding send_email_method_calls_def bind_e_def
  by (simp split: sum.splits) (metis (no_types))

lemma send_email_calls_names:
  "map call_name (send_email_calls st t c b subject body h)
     = [Inr (JStr ''Email/set''), Inr (JStr ''EmailSubmission/set'')]"
  by (simp add: send_email_calls_def read_defs)

lemma send_email_calls_rcpt_to:
  "call_argument (send_email_calls st t c b subject body h ! 1)
     [''create'', ''submission'', ''envelope'', ''rcptTo'']
   = Inr (JArr (t @ c @ b))"
  by (simp add: send_email_calls_def read_defs submission_def)

lemma send_email_calls_mail_from:
  "call_argument (send_email_calls st t c b subject body h ! 1)
     [''create'', ''submission'', ''envelope'', ''mailFrom'']
   = Inr (JObj [(''email'', JStr [])])"
  by (simp add: send_email_calls_def read_defs submission_def)

lemma send_email_calls_no_reference:
  "call_argument (send_email_calls st t c b subject body h ! 1)
     [''create'', ''submission'', ''envelope'', ''#rcptTo'']
   = Inl (KeyError (JStr ''#rcptTo''))"
  by (simp add: send_email_calls_def read_defs submission_def)

lemma email_data_to:
  "map_of (email_data t c b subject body h) ''to'' = Some (JArr t)"
  unfolding email_data_def map_of_put_if
  by (cases "truthy h") (simp_all add: update_conv')

lemma send_email_calls_draft_to:
  "call_argument (send_email_calls st t c b subject body h ! 0) [''create'', ''draft'', ''to'']
   = Inr (JArr t)"
  by (simp add: send_email_calls_def read_defs email_data_to)

lemma address_eq: "address = (\<lambda>addr. JObj [(''email'', addr)])"
  by (simp add: fun_eq_iff address_def)

lemma send_email_log:
  assumes "send_email_method_calls st args = Inr calls"
    and "truthy (api_token st)" and "truthy (account_id st)"
  shows "snd (send_email env st args log) = log @ [jmap_post env st calls]"
  using assms by (simp add: send_email_def then_e_def make_jmap_request_log)

lemma bind_e_Inr: "bind_e (Inr x) f = f x"
  by (simp add: bind_e_def)

text \<open>
  C8. When \<^verbatim>\<open>to\<close>, \<^verbatim>\<open>cc\<close> and \<^verbatim>\<open>bcc\<close> are lists of addresses (the last two may be
  left out), the batch of \<^verbatim>\<open>send_email\<close> is \<^verbatim>\<open>Email/set\<close> then
  \<^verbatim>\<open>EmailSubmission/set\<close>, and the \<^verbatim>\<open>rcptTo\<close> of the submission's envelope is the
  \<^verbatim>\<open>to\<close> addresses, then the \<^verbatim>\<open>cc\<close> addresses, then the \<^verbatim>\<open>bcc\<close> addresses, each as
  \<^verbatim>\<open>{email: addr}\<close>. It is a literal list under the key \<^verbatim>\<open>rcptTo\<close>: the envelope has no
  \<^verbatim>\<open>#rcptTo\<close> back-reference. Once the session is configured this batch is the one posted.
\<close>

theorem send_email_rcpt_to:
  assumes "dict_item args ''to'' = Inr (JArr ts)"
    and "dict_get_default args ''cc'' (JArr []) = JArr cs"
    and "dict_get_default args ''bcc'' (JArr []) = JArr bs"
    and "dict_item args ''subject'' = Inr subject"
    and "dict_item args ''body'' = Inr body"
  shows "bind_e (send_email_method_calls st args) (\<lambda>calls. Inr (map call_name calls))
           = Inr [Inr (JStr ''Email/set''), Inr (JStr ''EmailSubmission/set'')] \<and>
         bind_e (send_email_method_calls st args) (\<lambda>calls.
             call_argument (calls ! 1) [''create'', ''submission'', ''envelope'', ''rcptTo''])
           = Inr (JArr (map (\<lambda>addr. JObj [(''email'', addr)]) ts
                        @ map (\<lambda>addr. JObj [(''email'', addr)]) cs
                        @ map (\<lambda>addr. JObj [(''email'', addr)]) bs)) \<and>
         bind_e (send_email_method_calls st args) (\<lambda>calls.
             call_argument (calls ! 1) [''create'', ''submission'', ''envelope'', ''#rcptTo''])
           = Inl (KeyError (JStr ''#rcptTo'')) \<and>
         (truthy (api_token st) \<and> truthy (account_id st) \<longrightarrow>
            bind_e (send_email_method_calls st args) (\<lambda>calls.
                Inr (log @ [jmap_post env st calls]))
              = Inr (snd (send_email env st args log)))"
proof -
  note c = send_email_method_calls_lists [OF assms, of st]
  show ?thesis
    unfolding c bind_e_Inr send_email_calls_names send_email_calls_rcpt_to
      send_email_calls_no_reference address_eq [symmetric]
    by (simp add: send_email_log [OF c])
qed

theorem send_email_rcpt_to_witness:
  "bind_e (send_email_method_calls configured_state
             [(''to'', JArr [JStr ''a@example.org'', JStr ''b@example.org'']),
              (''cc'', JArr [JStr ''c@example.org'']),
              (''bcc'', JArr [JStr ''d@example.org'']),
              (''subject'', JStr ''Hi''), (''body'', JStr ''Hello'')])
     (\<lambda>calls. call_argument (calls ! 1) [''create'', ''submission'', ''envelope'', ''rcptTo''])
   = Inr (JArr [JObj [(''email'', JStr ''a@example.org'')],
                JObj [(''email'', JStr ''b@example.org'')],
                JObj [(''email'', JStr ''c@example.org'')],
                JObj [(''email'', JStr ''d@example.org'')]])"
  using send_email_rcpt_to
    [of "[(''to'', JArr [JStr ''a@example.org'', JStr ''b@example.org'']),
          (''cc'', JArr [JStr ''c@example.org'']),
          (''bcc'', JArr [JStr ''d@example.org'']),
          (''subject'', JStr ''Hi''), (''body'', JStr ''Hello'')]"
        "[JStr ''a@example.org'', JStr ''b@example.org'']"
        "[JStr ''c@example.org'']" "[JStr ''d@example.org'']"
        "JStr ''Hi''" "JStr ''Hello''" configured_state "[]" offline]
  by (simp add: dict_item_def dict_get_default_def)

lemma jmap_post_request:
  "jmap_post env st method_calls =
     HttpPost ''https://api.fastmail.com/jmap/api/''
       [(''Authorization'', ''Bearer '' @ py_str env (api_token st)),
        (''Content-Type'', ''application/json'')]
       (JObj [(''using'', JArr [JStr ''urn:ietf:params:jmap:core'',
                                JStr ''urn:ietf:params:jmap:mail'']),
              (''methodCalls'', JArr method_calls)])"
  by (simp add: jmap_post_def request_data_def FASTMAIL_API_URL_def bearer_def)

lemma issued_calls_append: "issued_calls (xs @ ys) = issued_calls xs @ issued_calls ys"
  by (simp add: issued_calls_def)

lemma issued_calls_send_email_calls:
  "issued_calls [jmap_post env st (send_email_calls st' t c b subject body h)]
     = [Inr (JStr ''Email/set''), Inr (JStr ''EmailSubmission/set'')]"
  by (simp add: issued_calls_def jmap_post_def request_data_def bind_e_def dict_item_def
      send_email_calls_names)

text \<open>
  C10. With an empty \<^verbatim>\<open>to\<close> list (and \<^verbatim>\<open>cc\<close>, \<^verbatim>\<open>bcc\<close> lists, \<^verbatim>\<open>subject\<close> and
  \<^verbatim>\<open>body\<close> given) nothing is rejected before sending: on a configured session the
  two-call batch is built and handed to the transport, as one POST to the API URL whose
  body holds the built calls under \<^verbatim>\<open>methodCalls\<close>; the calls the log then holds are
  those before followed by \<^verbatim>\<open>Email/set\<close> and \<^verbatim>\<open>EmailSubmission/set\<close>, and the
  result of the tool is read from the transport's reply to that request. The draft's
  \<^verbatim>\<open>to\<close> list is empty and the envelope's \<^verbatim>\<open>rcptTo\<close> is the \<^verbatim>\<open>cc\<close> addresses
  followed by the \<^verbatim>\<open>bcc\<close> addresses. In every batch that \<^verbatim>\<open>send_email\<close> builds,
  \<^verbatim>\<open>mailFrom\<close> is \<^verbatim>\<open>{"email": ""}\<close>.
\<close>

theorem send_email_empty_to:
  assumes "truthy (api_token st)" and "truthy (account_id st)"
    and "dict_item args ''to'' = Inr (JArr [])"
    and "dict_get_default args ''cc'' (JArr []) = JArr cs"
    and "dict_get_default args ''bcc'' (JArr []) = JArr bs"
    and "dict_item args ''subject'' = Inr subject"
    and "dict_item args ''body'' = Inr body"
  shows "bind_e (send_email_method_calls st args) (\<lambda>calls.
             Inr (log @ [HttpPost ''https://api.fastmail.com/jmap/api/''
                           [(''Authorization'', ''Bearer '' @ py_str env (api_token st)),
                            (''Content-Type'', ''application/json'')]
                           (JObj [(''using'', JArr [JStr ''urn:ietf:params:jmap:core'',
                                                    JStr ''urn:ietf:params:jmap:mail'']),
                                  (''methodCalls'', JArr calls)])]))
           = Inr (snd (send_email env st args log)) \<and>
         issued_calls (snd (send_email env st args log))
           = issued_calls log @ [Inr (JStr ''Email/set''), Inr (JStr ''EmailSubmission/set'')] \<and>
         fst (send_email env st args log)
           = bind_e
               (bind_e (send_email_method_calls st args) (\<lambda>calls.
                  transport env log
                    (HttpPost ''https://api.fastmail.com/jmap/api/''
                        [(''Authorization'', ''Bearer '' @ py_str env (api_token st)),
                         (''Content-Type'', ''application/json'')]
                        (JObj [(''using'', JArr [JStr ''urn:ietf:params:jmap:core'',
                                                 JStr ''urn:ietf:params:jmap:mail'']),
                               (''methodCalls'', JArr calls)]))))
               (\<lambda>response.
                  bind_e (if status_code response \<noteq> 200
                          then Inl (Exception (''JMAP API error: '' @ body_text response))
                          else response_json response)
                    (send_email_result env)) \<and>
         bind_e (send_email_method_calls st args) (\<lambda>calls. Inr (log @ [jmap_post env st calls]))
           = Inr (snd (send_email env st args log)) \<and>
         bind_e (send_email_method_calls st args) (\<lambda>calls. Inr (map call_name calls))
           = Inr [Inr (JStr ''Email/set''), Inr (JStr ''EmailSubmission/set'')] \<and>
         bind_e (send_email_method_calls st args) (\<lambda>calls.
             call_argument (calls ! 0) [''create'', ''draft'', ''to''])
           = Inr (JArr []) \<and>
         bind_e (send_email_method_calls st args) (\<lambda>calls.
             call_argument (calls ! 1) [''create'', ''submission'', ''envelope'', ''rcptTo''])
           = Inr (JArr (map (\<lambda>addr. JObj [(''email'', addr)]) cs
                        @ map (\<lambda>addr. JObj [(''email'', addr)]) bs)) \<and>
         (\<forall>args' calls'. send_email_method_calls st args' = Inr calls' \<longrightarrow>
            call_argument (calls' ! 1) [''create'', ''submission'', ''envelope'', ''mailFrom'']
              = Inr (JObj [(''email'', JStr [])]))"
proof -
  let ?calls = "send_email_calls st (map address []) (map address cs) (map address bs)
                  subject body (dict_get_default args ''isHtml'' (JBool False))"
  note c = send_email_method_calls_lists [OF assms(3-7), of st]
  have m: "call_argument (calls' ! 1) [''create'', ''submission'', ''envelope'', ''mailFrom'']
              = Inr (JObj [(''email'', JStr [])])"
    if "send_email_method_calls st args' = Inr calls'" for args' calls'
  proof -
    from send_email_method_calls_shape [OF that] obtain t c b s bd h
      where "calls' = send_email_calls st t c b s bd h" by (elim exE)
    then show ?thesis by (simp only: send_email_calls_mail_from)
  qed
  have l: "snd (send_email env st args log) = log @ [jmap_post env st ?calls]"
    using c assms(1,2) by (rule send_email_log)
  have p: "Inr (log @ [HttpPost ''https://api.fastmail.com/jmap/api/''
                           [(''Authorization'', ''Bearer '' @ py_str env (api_token st)),
                            (''Content-Type'', ''application/json'')]
                           (JObj [(''using'', JArr [JStr ''urn:ietf:params:jmap:core'',
                                                    JStr ''urn:ietf:params:jmap:mail'']),
                                  (''methodCalls'', JArr ?calls)])])
           = (Inr (snd (send_email env st args log)) :: error + http_request list)"
    unfolding l jmap_post_request ..
  have i: "issued_calls (snd (send_email env st args log))
           = issued_calls log @ [Inr (JStr ''Email/set''), Inr (JStr ''EmailSubmission/set'')]"
    unfolding l issued_calls_append issued_calls_send_email_calls ..
  have f: "fst (send_email env st args log)
           = bind_e
               (bind_e (send_email_method_calls st args) (\<lambda>calls.
                  transport env log
                    (HttpPost ''https://api.fastmail.com/jmap/api/''
                        [(''Authorization'', ''Bearer '' @ py_str env (api_token st)),
                         (''Content-Type'', ''application/json'')]
                        (JObj [(''using'', JArr [JStr ''urn:ietf:params:jmap:core'',
                                                 JStr ''urn:ietf:params:jmap:mail'']),
                               (''methodCalls'', JArr calls)]))))
               (\<lambda>response.
                  bind_e (if status_code response \<noteq> 200
                          then Inl (Exception (''JMAP API error: '' @ body_text response))
                          else response_json response)
                    (send_email_result env))"
    unfolding c bind_e_Inr jmap_post_request [symmetric]
    using assms(1,2)
    by (simp add: send_email_def c then_e_def make_jmap_request_def bind_e_def
        split: sum.splits)
  have rest: "bind_e (send_email_method_calls st args) (\<lambda>calls. Inr (log @ [jmap_post env st calls]))
           = Inr (snd (send_email env st args log)) \<and>
         bind_e (send_email_method_calls st args) (\<lambda>calls. Inr (map call_name calls))
           = Inr [Inr (JStr ''Email/set''), Inr (JStr ''EmailSubmission/set'')] \<and>
         bind_e (send_email_method_calls st args) (\<lambda>calls.
             call_argument (calls ! 0) [''create'', ''draft'', ''to''])
           = Inr (JArr []) \<and>
         bind_e (send_email_method_calls st args) (\<lambda>calls.
             call_argument (calls ! 1) [''create'', ''submission'', ''envelope'', ''rcptTo''])
           = Inr (JArr (map (\<lambda>addr. JObj [(''email'', addr)]) cs
                        @ map (\<lambda>addr. JObj [(''email'', addr)]) bs)) \<and>
         (\<forall>args' calls'. send_email_method_calls st args' = Inr calls' \<longrightarrow>
            call_argument (calls' ! 1) [''create'', ''submission'', ''envelope'', ''mailFrom'']
              = Inr (JObj [(''email'', JStr [])]))"
    unfolding c bind_e_Inr send_email_calls_names send_email_calls_rcpt_to
      send_email_calls_draft_to address_eq [symmetric] l
    using m by simp
  have first: "bind_e (send_email_method_calls st args) (\<lambda>calls.
             Inr (log @ [HttpPost ''https://api.fastmail.com/jmap/api/''
                           [(''Authorization'', ''Bearer '' @ py_str env (api_token st)),
                            (''Content-Type'', ''application/json'')]
                           (JObj [(''using'', JArr [JStr ''urn:ietf:params:jmap:core'',
                                                    JStr ''urn:ietf:params:jmap:mail'']),
                                  (''methodCalls'', JArr calls)])]))
           = Inr (snd (send_email env st args log))"
    unfolding c bind_e_Inr by (rule p)
  show ?thesis by (intro conjI first i f rest [THEN conjunct1]
      rest [THEN conjunct2, THEN conjunct1]
      rest [THEN conjunct2, THEN conjunct2, THEN conjunct1]
      rest [THEN conjunct2, THEN conjunct2, THEN conjunct2, THEN conjunct1]
      rest [THEN conjunct2, THEN conjunct2, THEN conjunct2, THEN conjunct2])
qed

theorem send_email_empty_to_witness:
  "snd (send_email offline configured_state
          [(''to'', JArr []), (''cc'', JArr [JStr ''c@example.org'']),
           (''subject'', JStr ''Hi''), (''body'', JStr ''Hello'')] [])
   = [HttpPost ''https://api.fastmail.com/jmap/api/''
        [(''Authorization'', ''Bearer token-1''), (''Content-Type'', ''application/json'')]
        (JObj [(''using'', JArr [JStr ''urn:ietf:params:jmap:core'',
                                 JStr ''urn:ietf:params:jmap:mail'']),
               (''methodCalls'', JArr
        [JArr [JStr ''Email/set'',
               JObj [(''accountId'', JStr ''A1''),
                     (''create'',
                      JObj [(''draft'',
                             JObj [(''to'', JArr []),
                                   (''subject'', JStr ''Hi''),
                                   (''bodyValues'',
                                    JObj [(''body1'', JObj [(''value'', JStr ''Hello''),
                                                            (''type'', JStr ''text/plain'')])]),
                                   (''textBody'',
                                    JArr [JObj [(''partId'', JStr ''body1''),
                                                (''type'', JStr ''text/plain'')]]),
                                   (''cc'', JArr [JObj [(''email'', JStr ''c@example.org'')]])])])],
               JStr ''e''],
         JArr [JStr ''EmailSubmission/set'',
               JObj [(''accountId'', JStr ''A1''),
                     (''create'',
                      JObj [(''submission'',
                             JObj [(''#emailId'',
                                    JObj [(''resultOf'', JStr ''e''), (''name'', JStr ''Email/set''),
                                          (''path'', JStr ''/created/draft/id'')]),
                                   (''envelope'',
                                    JObj [(''mailFrom'', JObj [(''email'', JStr [])]),
                                          (''rcptTo'',
                                           JArr [JObj [(''email'', JStr ''c@example.org'')]])])])])],
               JStr ''s'']])])]"
proof -
  have c: "send_email_method_calls configured_state
          [(''to'', JArr []), (''cc'', JArr [JStr ''c@example.org'']),
           (''subject'', JStr ''Hi''), (''body'', JStr ''Hello'')]
        = Inr [JArr [JStr ''Email/set'',
               JObj [(''accountId'', JStr ''A1''),
                     (''create'',
                      JObj [(''draft'',
                             JObj [(''to'', JArr []),
                                   (''subject'', JStr ''Hi''),
                                   (''bodyValues'',
                                    JObj [(''body1'', JObj [(''value'', JStr ''Hello''),
                                                            (''type'', JStr ''text/plain'')])]),
                                   (''textBody'',
                                    JArr [JObj [(''partId'', JStr ''body1''),
                                                (''type'', JStr ''text/plain'')]]),
                                   (''cc'', JArr [JObj [(''email'', JStr ''c@example.org'')]])])])],
               JStr ''e''],
         JArr [JStr ''EmailSubmission/set'',
               JObj [(''accountId'', JStr ''A1''),
                     (''create'',
                      JObj [(''submission'',
                             JObj [(''#emailId'',
                                    JObj [(''resultOf'', JStr ''e''), (''name'', JStr ''Email/set''),
                                          (''path'', JStr ''/created/draft/id'')]),
                                   (''envelope'',
                                    JObj [(''mailFrom'', JObj [(''email'', JStr [])]),
                                          (''rcptTo'',
                                           JArr [JObj [(''email'', JStr ''c@example.org'')]])])])])],
               JStr ''s'']]"
    by (simp add: send_email_method_calls_def send_email_calls_def bind_e_def dict_item_def
        dict_get_default_def addresses_def address_def email_data_def put_if_def submission_def
        draft_back_reference_def configured_state_def)
  have t: "py_str offline (api_token configured_state) = ''token-1''"
    by (simp add: py_str_def configured_state_def)
  show ?thesis
    using send_email_empty_to
      [of configured_state
          "[(''to'', JArr []), (''cc'', JArr [JStr ''c@example.org'']),
            (''subject'', JStr ''Hi''), (''body'', JStr ''Hello'')]"
          "[JStr ''c@example.org'']" "[]" "JStr ''Hi''" "JStr ''Hello''" "[]" offline,
       THEN conjunct1]
    unfolding c bind_e_Inr t
    by (simp add: configured_state_def dict_item_def dict_get_default_def)
qed

subsection \<open>Operations before configuration\<close>

lemma then_e_not_configured:
  "\<not> truthy (api_token st) \<or> \<not> truthy (account_id st) \<Longrightarrow>
     then_e (make_jmap_request env st method_calls log) f = (Inl NotConfigured, log)"
  by (simp only: make_jmap_request_not_configured then_e_def fst_conv snd_conv bind_e_def
      sum.case)

lemma resolve_mailbox_id_not_configured:
  assumes "\<not> truthy (api_token st) \<or> \<not> truthy (account_id st)"
  shows "resolve_mailbox_id env st mailbox_id mailbox_name log =
           (if truthy mailbox_id then Inr mailbox_id
            else if \<not> truthy mailbox_name
            then Inl (Exception ''Either mailboxId or mailboxName must be provided'')
            else Inl NotConfigured, log)"
  unfolding resolve_mailbox_id_def then_e_not_configured [OF assms] by simp

lemma get_emails_not_configured:
  assumes "\<not> truthy (api_token st) \<or> \<not> truthy (account_id st)"
  shows "get_emails env st args log =
           (if \<not> truthy (dict_get args ''mailboxId'') \<and> \<not> truthy (dict_get args ''mailboxName'')
            then Inl (Exception ''Either mailboxId or mailboxName must be provided'')
            else Inl NotConfigured, log)"
  unfolding get_emails_def resolve_mailbox_id_not_configured [OF assms]
    then_e_not_configured [OF assms] bind_io_def
  by simp

lemma search_emails_not_configured:
  assumes "\<not> truthy (api_token st) \<or> \<not> truthy (account_id st)"
  shows "search_emails env st args log =
           (if email_filter env args = [] then Inr EmptyCriteria else Inl NotConfigured, log)"
  unfolding search_emails_def then_e_not_configured [OF assms] by simp

lemma get_email_body_not_configured:
  assumes "\<not> truthy (api_token st) \<or> \<not> truthy (account_id st)"
  shows "get_email_body env st args log =
           (if dict_has args ''emailId'' then Inl NotConfigured
            else Inl (KeyError (JStr ''emailId'')), log)"
  unfolding get_email_body_def then_e_not_configured [OF assms]
  by (simp add: dict_item_def dict_has_def split: option.splits)

lemma send_email_not_configured:
  assumes "\<not> truthy (api_token st) \<or> \<not> truthy (account_id st)"
  shows "send_email env st args log =
           (case send_email_method_calls st args of
              Inl e \<Rightarrow> Inl e | Inr method_calls \<Rightarrow> Inl NotConfigured, log)"
  unfolding send_email_def then_e_not_configured [OF assms]
  by (simp split: sum.splits)

text \<open>
  C9 (as amended). While the stored credential or the stored account identifier is
  missing (\<^verbatim>\<open>None\<close> or empty), no tool hands a request to the transport.
  \<^verbatim>\<open>list_mailboxes\<close> and \<^verbatim>\<open>find_mailbox\<close> raise the not-configured error. The other
  tools raise it when they reach the request: \<^verbatim>\<open>get_emails\<close> unless neither a mailbox id
  nor a mailbox name is given (then it raises that error), \<^verbatim>\<open>search_emails\<close> unless no
  criterion is set (then it returns the at-least-one-criterion text), \<^verbatim>\<open>get_email_body\<close>
  unless \<^verbatim>\<open>emailId\<close> is missing (\<^verbatim>\<open>KeyError\<close>), \<^verbatim>\<open>send_email\<close> unless building the
  batch from the arguments raises (then that exception).
\<close>

theorem not_configured_no_request:
  assumes "\<not> truthy (api_token st) \<or> \<not> truthy (account_id st)"
  shows "list_mailboxes env st args log = (Inl NotConfigured, log) \<and>
         find_mailbox env st args log = (Inl NotConfigured, log) \<and>
         get_emails env st args log =
           (if \<not> truthy (dict_get args ''mailboxId'') \<and> \<not> truthy (dict_get args ''mailboxName'')
            then Inl (Exception ''Either mailboxId or mailboxName must be provided'')
            else Inl NotConfigured, log) \<and>
         search_emails env st args log =
           (if email_filter env args = [] then Inr EmptyCriteria else Inl NotConfigured, log) \<and>
         get_email_body env st args log =
           (if dict_has args ''emailId'' then Inl NotConfigured
            else Inl (KeyError (JStr ''emailId'')), log) \<and>
         send_email env st args log =
           (case send_email_method_calls st args of
              Inl e \<Rightarrow> Inl e | Inr method_calls \<Rightarrow> Inl NotConfigured, log)"
proof (intro conjI)
  show "list_mailboxes env st args log = (Inl NotConfigured, log)"
    unfolding list_mailboxes_def by (rule then_e_not_configured [OF assms])
  show "find_mailbox env st args log = (Inl NotConfigured, log)"
    unfolding find_mailbox_def by (rule then_e_not_configured [OF assms])
qed (rule get_emails_not_configured [OF assms] search_emails_not_configured [OF assms]
      get_email_body_not_configured [OF assms] send_email_not_configured [OF assms])+

theorem not_configured_no_request_witness:
  "list_mailboxes offline init_state [] [] = (Inl NotConfigured, []) \<and>
   get_emails offline init_state [(''mailboxName'', JStr ''Inbox'')] [] = (Inl NotConfigured, []) \<and>
   search_emails offline init_state [(''keyword'', JStr ''invoice'')] [] = (Inl NotConfigured, []) \<and>
   get_email_body offline init_state [(''emailId'', JStr ''E1'')] [] = (Inl NotConfigured, []) \<and>
   send_email offline init_state
     [(''to'', JArr [JStr ''a@example.org'']), (''subject'', JStr ''Hi''), (''body'', JStr ''Hello'')] []
     = (Inl NotConfigured, [])"
proof -
  have n: "\<not> truthy (api_token init_state) \<or> \<not> truthy (account_id init_state)"
    by (simp add: init_state_def)
  have f: "email_filter offline [(''keyword'', JStr ''invoice'')] \<noteq> []"
    by (simp add: email_filter_Nil dict_get_def dict_get_default_def)
  have s: "send_email_method_calls init_state
     [(''to'', JArr [JStr ''a@example.org'']), (''subject'', JStr ''Hi''), (''body'', JStr ''Hello'')]
     = Inr (send_email_calls init_state (map address [JStr ''a@example.org'']) (map address [])
              (map address []) (JStr ''Hi'') (JStr ''Hello'') (JBool False))"
    by (simp add: send_email_method_calls_def bind_e_def dict_item_def dict_get_default_def
        addresses_def)
  show ?thesis
    using not_configured_no_request [OF n, of offline "[]" "[]"]
      not_configured_no_request [OF n, of offline "[(''mailboxName'', JStr ''Inbox'')]" "[]"]
      not_configured_no_request [OF n, of offline "[(''keyword'', JStr ''invoice'')]" "[]"]
      not_configured_no_request [OF n, of offline "[(''emailId'', JStr ''E1'')]" "[]"]
      not_configured_no_request [OF n, of offline
        "[(''to'', JArr [JStr ''a@example.org'']), (''subject'', JStr ''Hi''),
          (''body'', JStr ''Hello'')]" "[]"]
    unfolding s
    by (simp add: f dict_get_def dict_get_default_def dict_has_def)
qed

text \<open>
  The claim as stated fails for \<^verbatim>\<open>search_emails\<close> with no criterion on a session that
  was never configured: the result is the at-least-one-criterion text, not the
  not-configured error.
\<close>

theorem not_configured_counterexample:
  "\<not> truthy (api_token init_state) \<and>
   search_emails offline init_state [] [] = (Inr EmptyCriteria, []) \<and>
   fst (search_emails offline init_state [] []) \<noteq> Inl NotConfigured"
  by (simp add: init_state_def search_emails_def email_filter_def put_if_def dict_get_def
      dict_get_default_def dict_has_def)

subsection \<open>Reading the reply\<close>

text \<open>
  C1 (as amended). The reply is read by position, not by label. When the entry at
  position 1 of \<^verbatim>\<open>methodResponses\<close> is \<^verbatim>\<open>[name, payload, label]\<close>, what \<^verbatim>\<open>get_emails\<close>
  and \<^verbatim>\<open>search_emails\<close> take as the fetched emails is \<^verbatim>\<open>payload["list"]\<close>, whatever the
  name and the label are and whatever the other entries are: for a reply in submission
  order it is the list of the \<^verbatim>\<open>g\<close> entry.
\<close>

theorem response_list_by_position:
  assumes "py_getitem result ''methodResponses'' = Inr (JArr entries)"
    and "1 < length entries"
    and "entries ! 1 = JArr [name, payload, label]"
  shows "response_list result 1 = py_getitem payload ''list'' \<and>
         get_emails_result env args result =
           bind_e (py_getitem payload ''list'') (\<lambda>emails.
             if \<not> truthy emails then Inr (mailbox_mark @ '' No emails found in this mailbox.'')
             else format_emails env (dict_get_default args ''includeBody'' (JBool False)) emails) \<and>
         search_emails_result env args result =
           bind_e (py_getitem payload ''list'') (\<lambda>emails.
             if \<not> truthy emails
             then Inr (search_mark @ '' No emails found matching your search criteria.'')
             else format_search env args emails)"
proof -
  have "response_payload result 1 = Inr payload"
    using assms by (simp add: response_payload_def bind_e_def)
  then have "response_list result 1 = py_getitem payload ''list''"
    by (simp add: response_list_def bind_e_def)
  then show ?thesis
    by (simp only: get_emails_result_def search_emails_result_def simp_thms)
qed

theorem response_list_by_position_witness:
  "response_list (reply_of [query_entry, get_entry]) 1
     = Inr (JArr [JObj [(''id'', JStr ''E1''), (''subject'', JStr ''Hello'')]])"
  using response_list_by_position
    [of "reply_of [query_entry, get_entry]" "[query_entry, get_entry]" "JStr ''Email/get''"
        "JObj [(''list'', JArr [JObj [(''id'', JStr ''E1''), (''subject'', JStr ''Hello'')]])]"
        "JStr ''g''" offline "[]"]
  by (simp add: reply_of_def get_entry_def dict_item_def)

text \<open>
  The claim as stated fails on a reply with the same labelled entries in reversed
  order: position 1 then holds the \<^verbatim>\<open>q\<close> entry, which has no \<^verbatim>\<open>list\<close>, and
  \<^verbatim>\<open>get_emails\<close> raises \<^verbatim>\<open>KeyError\<close>, while the reply in submission order gives the
  emails.
\<close>

theorem response_list_by_position_counterexample:
  "fst (get_emails (reply_env (Inr (ok_response (reply_of [get_entry, query_entry]))))
          configured_state [(''mailboxId'', JStr ''M1'')] [])
     = Inl (KeyError (JStr ''list'')) \<and>
   fst (get_emails (reply_env (Inr (ok_response (reply_of [query_entry, get_entry]))))
          configured_state [(''mailboxId'', JStr ''M1'')] [])
     = Inr ''<emails>'' \<and>
   response_list (reply_of [get_entry, query_entry]) 1 = Inl (KeyError (JStr ''list'')) \<and>
   response_list (reply_of [query_entry, get_entry]) 1
     = Inr (JArr [JObj [(''id'', JStr ''E1''), (''subject'', JStr ''Hello'')]])"
proof -
  have r: "response_list (reply_of [get_entry, query_entry]) 1 = Inl (KeyError (JStr ''list''))"
    by (simp add: response_list_def response_payload_def reply_of_def get_entry_def
        query_entry_def bind_e_def dict_item_def)
  have i: "response_list (reply_of [query_entry, get_entry]) 1
     = Inr (JArr [JObj [(''id'', JStr ''E1''), (''subject'', JStr ''Hello'')]])"
    by (simp add: response_list_def response_payload_def reply_of_def get_entry_def
        query_entry_def bind_e_def dict_item_def)
  have g: "fst (get_emails (reply_env (Inr (ok_response j))) configured_state
                  [(''mailboxId'', JStr ''M1'')] [])
           = get_emails_result (reply_env (Inr (ok_response j))) [(''mailboxId'', JStr ''M1'')] j"
    for j
    by (simp add: get_emails_def resolve_mailbox_id_def bind_io_def then_e_def bind_e_def
        make_jmap_request_def configured_state_def dict_get_def dict_get_default_def
        reply_env_def ok_response_def response_json_def)
  show ?thesis
    unfolding g get_emails_result_def r i
    by (simp add: bind_e_def reply_env_def)
qed

subsection \<open>A draft that was not created\<close>

lemma posted_calls_jmap_post: "posted_calls (jmap_post env st method_calls) = method_calls"
  by (simp add: jmap_post_def request_data_def bind_e_def dict_item_def)

text \<open>
  C2 (as amended). On a configured session, when the reply's first entry reports the
  draft under \<^verbatim>\<open>notCreated\<close> with a description string, \<^verbatim>\<open>send_email\<close> returns the
  failure text that ends with that description. The \<^verbatim>\<open>EmailSubmission/set\<close> call is not
  held back: it is the second call of the one batch that was posted before the reply was
  read. After the reply nothing more is handed to the transport: the log grows by that
  one request.
\<close>

theorem send_email_not_created:
  assumes "truthy (api_token st)" and "truthy (account_id st)"
    and "send_email_method_calls st args = Inr calls"
    and "transport env log (jmap_post env st calls) = Inr response"
    and "status_code response = 200"
    and "body_json response = Some result"
    and "response_payload result 0 = Inr email_result"
    and "py_get email_result ''notCreated'' = Inr (JObj ((k, err) # rest))"
    and "py_getitem err ''description'' = Inr (JStr description)"
  shows "send_email env st args log =
           (Inr (cross_mark @ '' Failed to create email: '' @ description),
            log @ [jmap_post env st calls]) \<and>
         issued_calls [jmap_post env st calls] =
           [Inr (JStr ''Email/set''), Inr (JStr ''EmailSubmission/set'')]"
proof
  have "make_jmap_request env st calls log = (Inr result, log @ [jmap_post env st calls])"
    using assms(1,2,4,5,6) by (simp add: make_jmap_request_def response_json_def)
  moreover have "send_email_result env result
      = Inr (cross_mark @ '' Failed to create email: '' @ description)"
    using assms(7,8,9)
    by (simp add: send_email_result_def not_created_text_def bind_e_def py_str_def)
  ultimately show "send_email env st args log =
           (Inr (cross_mark @ '' Failed to create email: '' @ description),
            log @ [jmap_post env st calls])"
    using assms(3) by (simp add: send_email_def then_e_def bind_e_def)
next
  from send_email_method_calls_shape [OF assms(3)] obtain t c b s bd h
    where "calls = send_email_calls st t c b s bd h" by (elim exE)
  then show "issued_calls [jmap_post env st calls] =
           [Inr (JStr ''Email/set''), Inr (JStr ''EmailSubmission/set'')]"
    by (simp add: issued_calls_def posted_calls_jmap_post send_email_calls_names)
qed

theorem send_email_not_created_witness:
  "send_email (reply_env (Inr (ok_response not_created_reply))) configured_state send_args []
   = (Inr (cross_mark @ '' Failed to create email: missing subject''),
      [jmap_post (reply_env (Inr (ok_response not_created_reply))) configured_state
         (send_email_calls configured_state [JObj [(''email'', JStr ''a@example.org'')]] [] []
            (JStr []) (JStr ''Hello'') (JBool False))])"
proof -
  let ?env = "reply_env (Inr (ok_response not_created_reply))"
  let ?calls = "send_email_calls configured_state [JObj [(''email'', JStr ''a@example.org'')]]
                  [] [] (JStr []) (JStr ''Hello'') (JBool False)"
  have 1: "truthy (api_token configured_state)" "truthy (account_id configured_state)"
    by (simp_all add: configured_state_def)
  have 2: "send_email_method_calls configured_state send_args = Inr ?calls"
    by (simp add: send_email_method_calls_def send_args_def bind_e_def dict_item_def
        dict_get_default_def addresses_def address_def)
  have 3: "transport ?env [] (jmap_post ?env configured_state ?calls)
             = Inr (ok_response not_created_reply)"
    by (simp add: reply_env_def)
  have 4: "status_code (ok_response not_created_reply) = 200"
    "body_json (ok_response not_created_reply) = Some not_created_reply"
    by (simp_all add: ok_response_def)
  have 5: "response_payload not_created_reply 0 =
      Inr (JObj [(''created'', JObj []),
                 (''notCreated'',
                  JObj [(''draft'', JObj [(''type'', JStr ''invalidProperties''),
                                          (''description'', JStr ''missing subject'')])])])"
    by (simp add: response_payload_def not_created_reply_def reply_of_def bind_e_def
        dict_item_def)
  have 6: "py_get (JObj [(''created'', JObj []),
                 (''notCreated'',
                  JObj [(''draft'', JObj [(''type'', JStr ''invalidProperties''),
                                          (''description'', JStr ''missing subject'')])])])
             ''notCreated''
      = Inr (JObj ((''draft'', JObj [(''type'', JStr ''invalidProperties''),
                                     (''description'', JStr ''missing subject'')]) # []))"
    by (simp add: dict_get_def dict_get_default_def)
  have 7: "py_getitem (JObj [(''type'', JStr ''invalidProperties''),
                             (''description'', JStr ''missing subject'')]) ''description''
      = Inr (JStr ''missing subject'')"
    by (simp add: dict_item_def)
  from send_email_not_created [OF 1 2 3 4 5 6 7]
  show ?thesis by simp
qed

text \<open>
  The claim as stated fails at its own example: the failure text carries the
  description, and the log holds a posted \<^verbatim>\<open>EmailSubmission/set\<close> call.
\<close>

theorem send_email_not_created_counterexample:
  "fst (send_email (reply_env (Inr (ok_response not_created_reply))) configured_state send_args [])
     = Inr (cross_mark @ '' Failed to create email: missing subject'') \<and>
   Inr (JStr ''EmailSubmission/set'') \<in> set (issued_calls
     (snd (send_email (reply_env (Inr (ok_response not_created_reply))) configured_state
             send_args [])))"
proof -
  have m: "make_jmap_request (reply_env (Inr (ok_response not_created_reply))) configured_state
             calls []
           = (Inr not_created_reply,
              [jmap_post (reply_env (Inr (ok_response not_created_reply))) configured_state calls])"
    for calls
    by (simp add: make_jmap_request_def configured_state_def reply_env_def ok_response_def
        response_json_def)
  have c: "send_email_method_calls configured_state send_args
        = Inr (send_email_calls configured_state [JObj [(''email'', JStr ''a@example.org'')]]
                 [] [] (JStr []) (JStr ''Hello'') (JBool False))"
    by (simp add: send_email_method_calls_def send_args_def bind_e_def dict_item_def
        dict_get_default_def addresses_def address_def)
  have r: "send_email_result env not_created_reply
        = Inr (cross_mark @ '' Failed to create email: missing subject'')" for env
    by (simp add: send_email_result_def response_payload_def not_created_reply_def reply_of_def
        bind_e_def dict_item_def dict_get_def dict_get_default_def not_created_text_def
        py_str_def)
  show ?thesis
    by (simp add: send_email_def c m then_e_def r bind_e_def issued_calls_def
        posted_calls_jmap_post send_email_calls_names)
qed

subsection \<open>Reconfiguration\<close>

lemma configure_fastmail_returns:
  assumes "configure_fastmail env st args log = (Inr txt, st', log')"
  shows "dict_item args ''apiToken'' = Inr (api_token st') \<and>
         bind_e (transport env log (session_get env (api_token st')))
           (\<lambda>response. Inr (status_code response, body_json response))
           = Inr (200, Some (session_data st')) \<and>
         (if truthy (dict_get args ''accountId'')
          then account_id st' = dict_get args ''accountId''
          else primary_account (session_data st') = Inr (account_id st')) \<and>
         log' = log @ [session_get env (api_token st')]"
proof (cases "dict_item args ''apiToken''")
  case (Inl e)
  with assms show ?thesis by (simp add: configure_fastmail_def)
next
  case tok: (Inr tok)
  show ?thesis
  proof (cases "transport env log (session_get env tok)")
    case (Inl e)
    with assms tok show ?thesis by (simp add: configure_fastmail_def)
  next
    case resp: (Inr response)
    show ?thesis
    proof (cases "status_code response = 200")
      case False
      with assms tok resp show ?thesis by (simp add: configure_fastmail_def)
    next
      case ok: True
      show ?thesis
      proof (cases "body_json response")
        case None
        with assms tok resp ok show ?thesis
          by (simp add: configure_fastmail_def response_json_def)
      next
        case sd: (Some sd)
        show ?thesis
        proof (cases "truthy (dict_get args ''accountId'')")
          case True
          with assms tok resp ok sd show ?thesis
            by (clarsimp simp: configure_fastmail_def response_json_def Let_def bind_e_def)
        next
          case no_id: False
          show ?thesis
          proof (cases "primary_account sd")
            case (Inl e)
            with assms tok resp ok sd no_id show ?thesis
              by (simp add: configure_fastmail_def response_json_def)
          next
            case (Inr a)
            with assms tok resp ok sd no_id show ?thesis
              by (clarsimp simp: configure_fastmail_def response_json_def Let_def bind_e_def)
          qed
        qed
      qed
    qed
  qed
qed

lemma configure_fastmail_succeeds:
  assumes "dict_item args ''apiToken'' = Inr tok"
    and "transport env log (session_get env tok) = Inr response"
    and "status_code response = 200"
    and "body_json response = Some sd"
    and "if truthy (dict_get args ''accountId'') then a = dict_get args ''accountId''
         else primary_account sd = Inr a"
    and "configured_text env \<lparr>api_token = tok, account_id = a, session_data = sd\<rparr> = Inr txt"
  shows "configure_fastmail env st args log =
           (Inr txt, \<lparr>api_token = tok, account_id = a, session_data = sd\<rparr>,
            log @ [session_get env tok])"
proof -
  have s: "st\<lparr>api_token := tok, session_data := sd, account_id := x\<rparr>
             = \<lparr>api_token = tok, account_id = x, session_data = sd\<rparr>" for x
    by (cases st) simp
  show ?thesis
  proof (cases "truthy (dict_get args ''accountId'')")
    case True
    with assms show ?thesis
      by (simp add: configure_fastmail_def response_json_def Let_def s)
  next
    case False
    with assms show ?thesis
      by (simp add: configure_fastmail_def response_json_def Let_def s)
  qed
qed

text \<open>
  C3 (as amended). A reconfiguration assigns the fields one after another. Without an
  \<^verbatim>\<open>apiToken\<close> argument it raises and the state is unchanged. Otherwise the credential is
  replaced first, before the session is fetched: when the fetch answers with a status
  other than 200 the call raises, the stored credential is already the new one, and the
  stored account identifier and session data are the old ones. The call returns normally
  exactly as follows: the fetch with the new credential answered 200 with a JSON body,
  and the state it leaves is made of new values only, whatever the state before: the
  credential is the given \<^verbatim>\<open>apiToken\<close>, the session data is the body just fetched, and
  the account identifier is the given \<^verbatim>\<open>accountId\<close> when that is true in a condition
  (given and not empty), and otherwise the primary mail account of the body just
  fetched. One request, the session fetch, is handed to the transport.
\<close>

theorem configure_fastmail_assignments:
  "(dict_item args ''apiToken'' = Inl e \<longrightarrow>
      configure_fastmail env st args log = (Inl e, st, log)) \<and>
   (dict_item args ''apiToken'' = Inr tok \<and>
    transport env log (session_get env tok) = Inr response \<and> status_code response \<noteq> 200 \<longrightarrow>
      configure_fastmail env st args log =
        (Inl (Exception (''Failed to authenticate: '' @ body_text response)),
         st\<lparr>api_token := tok\<rparr>, log @ [session_get env tok])) \<and>
   (dict_item args ''apiToken'' = Inr tok \<and>
    transport env log (session_get env tok) = Inr response \<and> status_code response = 200 \<and>
    body_json response = Some sd \<and>
    (if truthy (dict_get args ''accountId'') then a = dict_get args ''accountId''
     else primary_account sd = Inr a) \<and>
    configured_text env \<lparr>api_token = tok, account_id = a, session_data = sd\<rparr> = Inr txt \<longrightarrow>
      configure_fastmail env st args log =
        (Inr txt, \<lparr>api_token = tok, account_id = a, session_data = sd\<rparr>,
         log @ [session_get env tok])) \<and>
   (configure_fastmail env st args log = (Inr txt', st', log') \<longrightarrow>
      dict_item args ''apiToken'' = Inr (api_token st') \<and>
      bind_e (transport env log (session_get env (api_token st')))
        (\<lambda>response. Inr (status_code response, body_json response))
        = Inr (200, Some (session_data st')) \<and>
      (if truthy (dict_get args ''accountId'')
       then account_id st' = dict_get args ''accountId''
       else primary_account (session_data st') = Inr (account_id st')) \<and>
      log' = log @ [session_get env (api_token st')])"
proof (intro conjI impI)
  assume "dict_item args ''apiToken'' = Inl e"
  then show "configure_fastmail env st args log = (Inl e, st, log)"
    by (simp add: configure_fastmail_def)
next
  assume "dict_item args ''apiToken'' = Inr tok \<and>
    transport env log (session_get env tok) = Inr response \<and> status_code response \<noteq> 200"
  then show "configure_fastmail env st args log =
        (Inl (Exception (''Failed to authenticate: '' @ body_text response)),
         st\<lparr>api_token := tok\<rparr>, log @ [session_get env tok])"
    by (simp add: configure_fastmail_def)
next
  assume "dict_item args ''apiToken'' = Inr tok \<and>
    transport env log (session_get env tok) = Inr response \<and> status_code response = 200 \<and>
    body_json response = Some sd \<and>
    (if truthy (dict_get args ''accountId'') then a = dict_get args ''accountId''
     else primary_account sd = Inr a) \<and>
    configured_text env \<lparr>api_token = tok, account_id = a, session_data = sd\<rparr> = Inr txt"
  then show "configure_fastmail env st args log =
        (Inr txt, \<lparr>api_token = tok, account_id = a, session_data = sd\<rparr>,
         log @ [session_get env tok])"
    by (elim conjE) (rule configure_fastmail_succeeds; assumption)
next
  assume r: "configure_fastmail env st args log = (Inr txt', st', log')"
  note c = configure_fastmail_returns [OF r]
  show "dict_item args ''apiToken'' = Inr (api_token st')"
    using c by (rule conjunct1)
  show "bind_e (transport env log (session_get env (api_token st')))
        (\<lambda>response. Inr (status_code response, body_json response))
        = Inr (200, Some (session_data st'))"
    using c [THEN conjunct2] by (rule conjunct1)
  show "if truthy (dict_get args ''accountId'')
       then account_id st' = dict_get args ''accountId''
       else primary_account (session_data st') = Inr (account_id st')"
    using c [THEN conjunct2, THEN conjunct2] by (rule conjunct1)
  show "log' = log @ [session_get env (api_token st')]"
    using c [THEN conjunct2, THEN conjunct2] by (rule conjunct2)
qed

theorem configure_fastmail_assignments_witness:
  "configure_fastmail rejecting old_state [(''apiToken'', JStr ''new-token'')] []
     = (Inl (Exception ''Failed to authenticate: Unauthorized''),
        old_state\<lparr>api_token := JStr ''new-token''\<rparr>,
        [session_get rejecting (JStr ''new-token'')]) \<and>
   configure_fastmail rejecting old_state [] [] = (Inl (KeyError (JStr ''apiToken'')), old_state, []) \<and>
   configure_fastmail (reply_env (Inr (ok_response session_reply))) old_state
       [(''apiToken'', JStr ''new-token'')] []
     = (Inr (check_mark @ '' FastMail configured successfully!'' @ [CHR 0x0A]
             @ ''Account ID: A-new'' @ [CHR 0x0A] @ ''Username: new@example.org''),
        \<lparr>api_token = JStr ''new-token'', account_id = JStr ''A-new'',
         session_data = session_reply\<rparr>,
        [session_get (reply_env (Inr (ok_response session_reply))) (JStr ''new-token'')]) \<and>
   configure_fastmail (reply_env (Inr (ok_response session_reply))) old_state
       [(''apiToken'', JStr ''new-token''), (''accountId'', JStr ''A-given'')] []
     = (Inr (check_mark @ '' FastMail configured successfully!'' @ [CHR 0x0A]
             @ ''Account ID: A-given'' @ [CHR 0x0A] @ ''Username: new@example.org''),
        \<lparr>api_token = JStr ''new-token'', account_id = JStr ''A-given'',
         session_data = session_reply\<rparr>,
        [session_get (reply_env (Inr (ok_response session_reply))) (JStr ''new-token'')]) \<and>
   primary_account session_reply = Inr (JStr ''A-new'')"
proof -
  let ?ok = "reply_env (Inr (ok_response session_reply))"
  let ?args = "[(''apiToken'', JStr ''new-token'')]"
  let ?args2 = "[(''apiToken'', JStr ''new-token''), (''accountId'', JStr ''A-given'')]"
  let ?new = "\<lparr>api_token = JStr ''new-token'', account_id = JStr ''A-new'',
               session_data = session_reply\<rparr>"
  let ?given = "\<lparr>api_token = JStr ''new-token'', account_id = JStr ''A-given'',
               session_data = session_reply\<rparr>"
  let ?txt = "check_mark @ '' FastMail configured successfully!'' @ [CHR 0x0A]
             @ ''Account ID: A-new'' @ [CHR 0x0A] @ ''Username: new@example.org''"
  let ?txt2 = "check_mark @ '' FastMail configured successfully!'' @ [CHR 0x0A]
             @ ''Account ID: A-given'' @ [CHR 0x0A] @ ''Username: new@example.org''"
  let ?unauthorized = "\<lparr>status_code = 401, body_text = ''Unauthorized'', body_json = None\<rparr>"
  have t: "dict_item ?args ''apiToken'' = Inr (JStr ''new-token'')"
    "dict_item ?args2 ''apiToken'' = Inr (JStr ''new-token'')"
    by (simp_all add: dict_item_def)
  have r: "transport rejecting [] (session_get rejecting (JStr ''new-token'')) = Inr ?unauthorized"
    by (simp add: rejecting_def reply_env_def)
  have k: "dict_item [] ''apiToken'' = Inl (KeyError (JStr ''apiToken''))"
    by (simp add: dict_item_def)
  have o: "transport ?ok [] (session_get ?ok (JStr ''new-token'')) = Inr (ok_response session_reply)"
    "status_code (ok_response session_reply) = 200"
    "body_json (ok_response session_reply) = Some session_reply"
    by (simp_all add: reply_env_def ok_response_def)
  have p: "primary_account session_reply = Inr (JStr ''A-new'')"
    by (simp add: primary_account_def session_reply_def bind_e_def dict_item_def)
  have a: "\<not> truthy (dict_get ?args ''accountId'')"
    "truthy (dict_get ?args2 ''accountId'')" "dict_get ?args2 ''accountId'' = JStr ''A-given''"
    by (simp_all add: dict_get_def dict_get_default_def)
  have u: "configured_text ?ok ?new = Inr ?txt" "configured_text ?ok ?given = Inr ?txt2"
    by (simp_all add: configured_text_def session_reply_def bind_e_def dict_get_default_def
        py_str_def)
  have 1: "configure_fastmail rejecting old_state ?args []
     = (Inl (Exception ''Failed to authenticate: Unauthorized''),
        old_state\<lparr>api_token := JStr ''new-token''\<rparr>,
        [session_get rejecting (JStr ''new-token'')])"
    using configure_fastmail_assignments
      [of ?args IndexError rejecting old_state "[]" "JStr ''new-token''" ?unauthorized]
      t r by simp
  have 2: "configure_fastmail rejecting old_state [] [] = (Inl (KeyError (JStr ''apiToken'')), old_state, [])"
    using configure_fastmail_assignments [of "[]" "KeyError (JStr ''apiToken'')" rejecting old_state "[]"]
      k by simp
  have 3: "configure_fastmail ?ok old_state ?args []
      = (Inr ?txt, ?new, [session_get ?ok (JStr ''new-token'')])"
    using configure_fastmail_assignments
      [of ?args IndexError ?ok old_state "[]" "JStr ''new-token''" "ok_response session_reply"
          session_reply "JStr ''A-new''" ?txt]
      t o p a u by simp
  have 4: "configure_fastmail ?ok old_state ?args2 []
      = (Inr ?txt2, ?given, [session_get ?ok (JStr ''new-token'')])"
    using configure_fastmail_assignments
      [of ?args2 IndexError ?ok old_state "[]" "JStr ''new-token''" "ok_response session_reply"
          session_reply "JStr ''A-given''" ?txt2]
      t o a u by simp
  have 5: "primary_account session_reply = Inr (JStr ''A-new'')"
    using configure_fastmail_assignments
      [of ?args IndexError ?ok old_state "[]" "JStr ''new-token''" "ok_response session_reply"
          session_reply "JStr ''A-new''" ?txt ?txt ?new "[session_get ?ok (JStr ''new-token'')]"]
      3 a by simp
  show ?thesis by (intro conjI) (rule 1 2 3 4 5)+
qed

text \<open>
  The claim as stated fails when an earlier configuration is followed by one that the
  server rejects: the call raises, and the state pairs the new credential with the old
  account identifier. The next request is posted with exactly that pair.
\<close>

theorem configure_fastmail_counterexample:
  "fst (configure_fastmail rejecting old_state [(''apiToken'', JStr ''new-token'')] [])
     = Inl (Exception ''Failed to authenticate: Unauthorized'') \<and>
   fst (snd (configure_fastmail rejecting old_state [(''apiToken'', JStr ''new-token'')] []))
     = \<lparr>api_token = JStr ''new-token'', account_id = JStr ''A-old'',
        session_data = JObj [(''username'', JStr ''old@example.org'')]\<rparr> \<and>
   snd (list_mailboxes rejecting
          \<lparr>api_token = JStr ''new-token'', account_id = JStr ''A-old'',
           session_data = JObj [(''username'', JStr ''old@example.org'')]\<rparr> [] [])
     = [HttpPost ''https://api.fastmail.com/jmap/api/''
          [(''Authorization'', ''Bearer new-token''), (''Content-Type'', ''application/json'')]
          (JObj [(''using'', JArr [JStr ''urn:ietf:params:jmap:core'',
                                   JStr ''urn:ietf:params:jmap:mail'']),
                 (''methodCalls'',
                  JArr [JArr [JStr ''Mailbox/get'', JObj [(''accountId'', JStr ''A-old'')],
                              JStr ''a'']])])]"
proof -
  have c: "configure_fastmail rejecting old_state [(''apiToken'', JStr ''new-token'')] []
     = (Inl (Exception ''Failed to authenticate: Unauthorized''),
        old_state\<lparr>api_token := JStr ''new-token''\<rparr>,
        [session_get rejecting (JStr ''new-token'')])"
    by (simp add: configure_fastmail_def dict_item_def rejecting_def reply_env_def)
  have l: "snd (list_mailboxes rejecting
          \<lparr>api_token = JStr ''new-token'', account_id = JStr ''A-old'',
           session_data = JObj [(''username'', JStr ''old@example.org'')]\<rparr> [] [])
     = [jmap_post rejecting \<lparr>api_token = JStr ''new-token'', account_id = JStr ''A-old'',
           session_data = JObj [(''username'', JStr ''old@example.org'')]\<rparr>
         (mailbox_get_calls \<lparr>api_token = JStr ''new-token'', account_id = JStr ''A-old'',
           session_data = JObj [(''username'', JStr ''old@example.org'')]\<rparr>)]"
    by (simp add: list_mailboxes_def then_e_def make_jmap_request_log)
  show ?thesis
    unfolding c l
    by (simp add: old_state_def jmap_post_def request_data_def mailbox_get_calls_def
        FASTMAIL_API_URL_def bearer_def py_str_def)
qed

end
